theory Spec2Isabelle
  imports Main "HOL-Library.Word" "HOL-Library.Sublist"
begin

unbundle bit_operations_syntax

section \<open>JavaScript values\<close>

text \<open>
  The logging functions of \<^verbatim>\<open>lib/logger.js\<close> are variadic and accept any
  JavaScript value. A number is its IEEE-754 binary64 bit pattern, a function is
  represented by its source text (what \<^verbatim>\<open>Function.prototype.toString\<close>
  returns) and an object by the list of its properties. Strings are lists of 8-bit
  characters.
\<close>

datatype jsval =
    JUndefined
  | JNull
  | JBool bool
  | JNum "64 word"
  | JStr string
  | JSymbol string
  | JFunction string
  | JObject "(string \<times> jsval) list"

text \<open>The \<^verbatim>\<open>typeof\<close> operator.\<close>

fun typeof :: "jsval \<Rightarrow> string" where
  "typeof JUndefined = ''undefined''"
| "typeof JNull = ''object''"
| "typeof (JBool b) = ''boolean''"
| "typeof (JNum w) = ''number''"
| "typeof (JStr s) = ''string''"
| "typeof (JSymbol d) = ''symbol''"
| "typeof (JFunction src) = ''function''"
| "typeof (JObject ps) = ''object''"

text \<open>
  Truthiness (the abstract operation ToBoolean), as used by \<^verbatim>\<open>if (x)\<close>,
  \<^verbatim>\<open>!x\<close> and \<^verbatim>\<open>x && y\<close>: \<^verbatim>\<open>undefined\<close>, \<^verbatim>\<open>null\<close>,
  \<^verbatim>\<open>false\<close>, the zeros, NaN and the empty string are falsy.
\<close>

definition isZero :: "64 word \<Rightarrow> bool" where
  "isZero w = (w AND 0x7FFFFFFFFFFFFFFF = 0)"

definition isNaN :: "64 word \<Rightarrow> bool" where
  "isNaN w = (w AND 0x7FFFFFFFFFFFFFFF > 0x7FF0000000000000)"

fun truthy :: "jsval \<Rightarrow> bool" where
  "truthy JUndefined = False"
| "truthy JNull = False"
| "truthy (JBool b) = b"
| "truthy (JNum w) = (\<not> isZero w \<and> \<not> isNaN w)"
| "truthy (JStr s) = (s \<noteq> [])"
| "truthy (JSymbol d) = True"
| "truthy (JFunction src) = True"
| "truthy (JObject ps) = True"

text \<open>Exceptions: a \<^verbatim>\<open>TypeError\<close> of the runtime, or a thrown error value.\<close>

datatype exn = TypeError string | Thrown jsval

section \<open>String operations of the runtime\<close>

text \<open>\<^verbatim>\<open>Array.prototype.join\<close> on an array of strings.\<close>

fun joinStrings :: "string \<Rightarrow> string list \<Rightarrow> string" where
  "joinStrings sep [] = []"
| "joinStrings sep [x] = x"
| "joinStrings sep (x # y # ys) = x @ sep @ joinStrings sep (y # ys)"

text \<open>
  \<^verbatim>\<open>String.prototype.split(' ')\<close>: the pieces between single spaces; the
  empty string gives one empty piece.
\<close>

fun splitSpace :: "string \<Rightarrow> string list" where
  "splitSpace [] = [[]]"
| "splitSpace (c # cs) =
     (if c = CHR '' '' then [] # splitSpace cs
      else (case splitSpace cs of
              [] \<Rightarrow> [[c]]
            | w # ws \<Rightarrow> (c # w) # ws))"

text \<open>\<^verbatim>\<open>String.prototype.trim\<close>: white space is removed at both ends.\<close>

definition whiteSpace :: "char \<Rightarrow> bool" where
  "whiteSpace c = (c \<in> set [CHR 0x20, CHR 0x09, CHR 0x0A, CHR 0x0B, CHR 0x0C, CHR 0x0D, CHR 0xA0])"

definition trim :: "string \<Rightarrow> string" where
  "trim s = rev (dropWhile whiteSpace (rev (dropWhile whiteSpace s)))"

text \<open>
  \<^verbatim>\<open>.replace(/Z|T|\..+/gi, ' ')\<close>: scanning from the left, a \<^verbatim>\<open>Z\<close> or
  \<^verbatim>\<open>T\<close> of either case becomes a space, and a dot followed by at least one
  character other than a line terminator becomes a space together with every such
  character after it (the quantifier is greedy). Any other character is kept.
\<close>

definition lineTerminator :: "char \<Rightarrow> bool" where
  "lineTerminator c = (c = CHR 0x0A \<or> c = CHR 0x0D)"

function replaceZT :: "string \<Rightarrow> string" where
  "replaceZT [] = []"
| "replaceZT (c # cs) =
     (if c \<in> set ''ZzTt'' then CHR '' '' # replaceZT cs
      else if c = CHR ''.'' \<and> takeWhile (\<lambda>x. \<not> lineTerminator x) cs \<noteq> []
        then CHR '' '' # replaceZT (dropWhile (\<lambda>x. \<not> lineTerminator x) cs)
      else c # replaceZT cs)"
  by pat_completeness auto
termination
  by (relation "measure length") (auto simp: length_dropWhile_le less_Suc_eq_le)

section \<open>Dates\<close>

text \<open>
  \<^verbatim>\<open>new Date()\<close> reads the clock; the model holds the instant by its UTC
  fields (month and day counted from 1). \<^verbatim>\<open>toISOString\<close> renders
  \<^verbatim>\<open>YYYY-MM-DDTHH:mm:ss.sssZ\<close>, with a sign and six digits for a year outside
  0 to 9999.
\<close>

record date =
  year :: int
  month :: nat
  day :: nat
  hours :: nat
  minutes :: nat
  seconds :: nat
  milliseconds :: nat

definition digit :: "nat \<Rightarrow> char" where
  "digit n = ''0123456789'' ! (n mod 10)"

fun pad :: "nat \<Rightarrow> nat \<Rightarrow> string" where
  "pad 0 n = []"
| "pad (Suc k) n = pad k (n div 10) @ [digit n]"

definition yearString :: "int \<Rightarrow> string" where
  "yearString y =
     (if 0 \<le> y \<and> y \<le> 9999 then pad 4 (nat y)
      else (if y < 0 then ''-'' else ''+'') @ pad 6 (nat \<bar>y\<bar>))"

definition datePart :: "date \<Rightarrow> string" where
  "datePart d = yearString (year d) @ ''-'' @ pad 2 (month d) @ ''-'' @ pad 2 (day d)"

definition timePart :: "date \<Rightarrow> string" where
  "timePart d = pad 2 (hours d) @ '':'' @ pad 2 (minutes d) @ '':'' @ pad 2 (seconds d)"

definition toISOString :: "date \<Rightarrow> string" where
  "toISOString d = datePart d @ ''T'' @ timePart d @ ''.'' @ pad 3 (milliseconds d) @ ''Z''"

text \<open>
  The timestamp of \<^verbatim>\<open>write\<close>:
  \<^verbatim>\<open>date.toISOString().replace(/Z|T|\..+/gi, ' ').trim().split(' ').reverse().join(' ')\<close>.
\<close>

definition dateString :: "date \<Rightarrow> string" where
  "dateString d = joinStrings '' '' (rev (splitSpace (trim (replaceZT (toISOString d)))))"

section \<open>The module's environment\<close>

text \<open>
  What \<^verbatim>\<open>lib/logger.js\<close> takes from outside: the constants computed when the
  module is loaded, the \<^verbatim>\<open>chalk\<close> styles it looks up, and the functions of Node,
  \<^verbatim>\<open>lodash\<close> and \<^verbatim>\<open>fs-extra\<close> it calls. They are parameters of the model;
  the type \<open>'fs\<close> is the state of the file system.
\<close>

text \<open>
  A \<^verbatim>\<open>chalk\<close> style \<^verbatim>\<open>s\<close> is used in three ways: \<^verbatim>\<open>s(x)\<close>,
  \<^verbatim>\<open>s.bold(x)\<close> and \<^verbatim>\<open>s.bold.inverse(x)\<close>. Each converts its argument to
  a string and wraps the string in its escape codes; the three fields are the wrapping.
\<close>

record style =
  plain :: "string \<Rightarrow> string"
  bold :: "string \<Rightarrow> string"
  boldInverse :: "string \<Rightarrow> string"

text \<open>The options of \<^verbatim>\<open>util.inspect\<close>; \<^verbatim>\<open>depth: null\<close> is \<open>None\<close>.\<close>

record inspectOptions =
  colors :: bool
  depth :: "nat option"
  showProxy :: bool
  showHidden :: bool

record 'fs env =
  appName :: string  \<comment> \<open>\<^verbatim>\<open>packageJson.name\<close>\<close>
  appLogDirectory :: string  \<comment> \<open>\<^verbatim>\<open>(new Appdirectory(appName)).userLogs()\<close>\<close>
  isDebug :: jsval  \<comment> \<open>the export of \<^verbatim>\<open>lib/is-debug\<close>\<close>
  parentFilename :: "string option"
    \<comment> \<open>\<^verbatim>\<open>module.parent.filename\<close>; \<open>None\<close> when \<^verbatim>\<open>module.parent\<close> is null\<close>
  processType :: jsval  \<comment> \<open>\<^verbatim>\<open>process.type\<close>\<close>
  chalkCyan :: style
  chalkRed :: style
  chalkYellow :: style
  chalkGreen :: style
  chalkOrange :: "style option"
    \<comment> \<open>\<^verbatim>\<open>chalk['orange']\<close>: not among the colours \<^verbatim>\<open>chalk\<close> documents,
        so the lookup may give \<^verbatim>\<open>undefined\<close> (\<open>None\<close>)\<close>
  chalkText :: "jsval \<Rightarrow> exn + string"
    \<comment> \<open>the conversion \<^verbatim>\<open>chalk\<close> applies to an argument that is not a string; it
        throws on a value that has no string conversion\<close>
  numberToString :: "64 word \<Rightarrow> string"  \<comment> \<open>ToString on a number\<close>
  objectToString :: "jsval \<Rightarrow> exn + string"  \<comment> \<open>ToString on an object\<close>
  inspect :: "jsval \<Rightarrow> inspectOptions \<Rightarrow> string"  \<comment> \<open>\<^verbatim>\<open>util.inspect\<close>\<close>
  formatS :: "jsval \<Rightarrow> string"
    \<comment> \<open>what \<^verbatim>\<open>%s\<close> of \<^verbatim>\<open>util.format\<close> renders an argument that is not a string as\<close>
  pathJoin :: "string \<Rightarrow> string \<Rightarrow> string"
  pathDirname :: "string \<Rightarrow> string"
  pathBasename :: "string \<Rightarrow> string"
  toUpper :: "string \<Rightarrow> string"  \<comment> \<open>\<^verbatim>\<open>_.toUpper\<close>\<close>
  mkdirp :: "'fs \<Rightarrow> string \<Rightarrow> jsval \<times> 'fs"
    \<comment> \<open>\<^verbatim>\<open>fs.mkdirp\<close>: the \<^verbatim>\<open>err\<close> handed to the callback, and the new file system\<close>
  appendFile :: "'fs \<Rightarrow> string \<Rightarrow> string \<Rightarrow> jsval \<times> 'fs"
    \<comment> \<open>\<^verbatim>\<open>fs.appendFile\<close>, likewise\<close>
  mkdirpSync :: "'fs \<Rightarrow> string \<Rightarrow> jsval option \<times> 'fs"
    \<comment> \<open>\<^verbatim>\<open>fs.mkdirpSync\<close>: the error it throws, if any, and the new file system\<close>

text \<open>\<^verbatim>\<open>let appLogFile = path.join(appLogDirectory, appName + '.log')\<close>\<close>

definition appLogFile :: "'fs env \<Rightarrow> string" where
  "appLogFile env = pathJoin env (appLogDirectory env) (appName env @ ''.log'')"

section \<open>The state\<close>

text \<open>
  The console records every call of \<^verbatim>\<open>console.log\<close> (standard output) and
  \<^verbatim>\<open>console.error\<close> (the error channel) with its arguments. The file system is
  reached asynchronously: \<^verbatim>\<open>fs.mkdirp\<close> and \<^verbatim>\<open>fs.appendFile\<close> start an
  operation whose callback runs later, from the event loop. A started operation is a
  task in \<open>pending\<close>.
\<close>

datatype consoleEvent = Stdout "jsval list" | Stderr "jsval list"

datatype task =
    MkdirpTask string string string
      \<comment> \<open>directory; then the file and the data of the callback's \<^verbatim>\<open>fs.appendFile\<close>\<close>
  | AppendTask string string  \<comment> \<open>file and data\<close>

record 'fs world =
  writeToFile :: jsval  \<comment> \<open>\<^verbatim>\<open>let writeToFile = false\<close>, set by the factory\<close>
  clock :: date  \<comment> \<open>what \<^verbatim>\<open>new Date()\<close> reads\<close>
  console :: "consoleEvent list"
  pending :: "task list"
  fs :: 'fs

definition consoleLog :: "jsval list \<Rightarrow> 'fs world \<Rightarrow> 'fs world" where
  "consoleLog args w = w\<lparr>console := console w @ [Stdout args]\<rparr>"

definition consoleError :: "jsval list \<Rightarrow> 'fs world \<Rightarrow> 'fs world" where
  "consoleError args w = w\<lparr>console := console w @ [Stderr args]\<rparr>"

section \<open>The file writer\<close>

definition CRLF :: string where
  "CRLF = [CHR 0x0D, CHR 0x0A]"

text \<open>
  \<^verbatim>\<open>write(entry)\<close>, here \<open>writeEntry\<close>, returns at once when \<^verbatim>\<open>writeToFile\<close> is falsy. Otherwise it
  builds the line and starts \<^verbatim>\<open>fs.mkdirp(path.dirname(appLogFile), callback)\<close>.
\<close>

definition writeEntry :: "'fs env \<Rightarrow> string \<Rightarrow> 'fs world \<Rightarrow> 'fs world" where
  "writeEntry env entry w =
     (if \<not> truthy (writeToFile w) then w
      else
        let logEntry = ''['' @ dateString (clock w) @ ''] '' @ entry
        in w\<lparr>pending := pending w @
               [MkdirpTask (pathDirname env (appLogFile env)) (appLogFile env) (logEntry @ CRLF)]\<rparr>)"

text \<open>
  The callbacks. That of \<^verbatim>\<open>fs.mkdirp\<close> reports a truthy \<^verbatim>\<open>err\<close> with
  \<^verbatim>\<open>console.error('log', 'fs.mkdirp', err)\<close> and otherwise starts
  \<^verbatim>\<open>fs.appendFile(appLogFile, logEntry + '\r\n', callback)\<close>, whose callback reports
  a truthy \<^verbatim>\<open>err\<close> with \<^verbatim>\<open>console.error('log', 'fs.appendFile', err)\<close>.
\<close>

fun runTask :: "'fs env \<Rightarrow> task \<Rightarrow> 'fs world \<Rightarrow> 'fs world" where
  "runTask env (MkdirpTask dir file data) w =
     (case mkdirp env (fs w) dir of
        (err, fs') \<Rightarrow>
          if truthy err
          then consoleError [JStr ''log'', JStr ''fs.mkdirp'', err] (w\<lparr>fs := fs'\<rparr>)
          else w\<lparr>fs := fs', pending := pending w @ [AppendTask file data]\<rparr>)"
| "runTask env (AppendTask file data) w =
     (case appendFile env (fs w) file data of
        (err, fs') \<Rightarrow>
          if truthy err
          then consoleError [JStr ''log'', JStr ''fs.appendFile'', err] (w\<lparr>fs := fs'\<rparr>)
          else w\<lparr>fs := fs'\<rparr>)"

text \<open>The event loop completes the \<open>i\<close>-th pending operation.\<close>

definition runPending :: "'fs env \<Rightarrow> nat \<Rightarrow> 'fs world \<Rightarrow> 'fs world" where
  "runPending env i w =
     (if i < length (pending w)
      then runTask env (pending w ! i) (w\<lparr>pending := take i (pending w) @ drop (Suc i) (pending w)\<rparr>)
      else w)"

section \<open>The entry formatter\<close>

record logEntry =
  prefixOf :: string
  labelOf :: jsval
  messageOf :: string

definition inspectOpts :: inspectOptions where
  "inspectOpts = \<lparr>colors = False, depth = None, showProxy = True, showHidden = True\<rparr>"

text \<open>
  The loop \<^verbatim>\<open>for (let message in messageList)\<close> visits the indices of the array
  in order and overwrites each element that is not \<^verbatim>\<open>null\<close> and whose
  \<^verbatim>\<open>typeof\<close> is \<^verbatim>\<open>'object'\<close>.
\<close>

fun inspectLoop :: "'fs env \<Rightarrow> nat list \<Rightarrow> jsval list \<Rightarrow> jsval list" where
  "inspectLoop env [] messageList = messageList"
| "inspectLoop env (i # is) messageList =
     inspectLoop env is
       (if messageList ! i \<noteq> JNull \<and> typeof (messageList ! i) = ''object''
        then messageList[i := JStr (CRLF @ inspect env (messageList ! i) inspectOpts)]
        else messageList)"

text \<open>
  \<^verbatim>\<open>messageList.join(' ')\<close> renders \<^verbatim>\<open>undefined\<close> and \<^verbatim>\<open>null\<close> as the
  empty string and every other element by ToString, which throws a
  \<^verbatim>\<open>TypeError\<close> on a symbol.
\<close>

fun ToString :: "'fs env \<Rightarrow> jsval \<Rightarrow> exn + string" where
  "ToString env JUndefined = Inr ''undefined''"
| "ToString env JNull = Inr ''null''"
| "ToString env (JBool b) = Inr (if b then ''true'' else ''false'')"
| "ToString env (JNum n) = Inr (numberToString env n)"
| "ToString env (JStr s) = Inr s"
| "ToString env (JSymbol d) = Inl (TypeError ''Cannot convert a Symbol value to a string'')"
| "ToString env (JFunction src) = Inr src"
| "ToString env (JObject ps) = objectToString env (JObject ps)"

definition joinElement :: "'fs env \<Rightarrow> jsval \<Rightarrow> exn + string" where
  "joinElement env v = (if v = JUndefined \<or> v = JNull then Inr [] else ToString env v)"

fun joinElements :: "'fs env \<Rightarrow> jsval list \<Rightarrow> exn + string list" where
  "joinElements env [] = Inr []"
| "joinElements env (v # vs) =
     (case joinElement env v of
        Inl e \<Rightarrow> Inl e
      | Inr s \<Rightarrow> (case joinElements env vs of Inl e \<Rightarrow> Inl e | Inr ss \<Rightarrow> Inr (s # ss)))"

definition arrayJoin :: "'fs env \<Rightarrow> string \<Rightarrow> jsval list \<Rightarrow> exn + string" where
  "arrayJoin env sep vs =
     (case joinElements env vs of Inl e \<Rightarrow> Inl e | Inr ss \<Rightarrow> Inr (joinStrings sep ss))"

text \<open>
  \<^verbatim>\<open>parseLogEntry(messageList)\<close>. Reading \<^verbatim>\<open>module.parent.filename\<close> throws
  when \<^verbatim>\<open>module.parent\<close> is null; \<^verbatim>\<open>shift()\<close> on an empty array gives
  \<^verbatim>\<open>undefined\<close>.
\<close>

definition parseLogEntry :: "'fs env \<Rightarrow> jsval list \<Rightarrow> exn + logEntry" where
  "parseLogEntry env args =
     (case parentFilename env of
        None \<Rightarrow> Inl (TypeError ''Cannot read property filename of null'')
      | Some filename \<Rightarrow>
          let prefix = toUpper env (pathBasename env filename);
              label = (case args of [] \<Rightarrow> JUndefined | x # xs \<Rightarrow> x);
              messageList = (case args of [] \<Rightarrow> [] | x # xs \<Rightarrow> xs);
              messageList' = inspectLoop env [0..<length messageList] messageList
          in (case arrayJoin env '' '' messageList' of
                Inl e \<Rightarrow> Inl e
              | Inr messageString \<Rightarrow>
                  Inr \<lparr>prefixOf = prefix, labelOf = label, messageOf = messageString\<rparr>))"

section \<open>The logging functions\<close>

text \<open>
  \<^verbatim>\<open>util.format\<close>, for the directive \<^verbatim>\<open>%s\<close>, the only one in the
  module's format strings; every call supplies as many arguments as directives. A
  string argument is inserted as it is.
\<close>

definition formatArg :: "'fs env \<Rightarrow> jsval \<Rightarrow> string" where
  "formatArg env v = (case v of JStr s \<Rightarrow> s | _ \<Rightarrow> formatS env v)"

fun utilFormat :: "'fs env \<Rightarrow> string \<Rightarrow> jsval list \<Rightarrow> string" where
  "utilFormat env [] args = []"
| "utilFormat env [c] args = [c]"
| "utilFormat env (c # d # f) args =
     (if c = CHR ''%'' \<and> d = CHR ''s'' \<and> args \<noteq> []
      then formatArg env (hd args) @ utilFormat env f (tl args)
      else c # utilFormat env (d # f) args)"

text \<open>
  The console line of the five terminal functions:
  \<^verbatim>\<open>util.format('[%s] [%s] %s', style.bold.inverse(parameters.prefix),
  style.bold(parameters.label), style(parameters.message))\<close>.
\<close>

definition styleArg :: "'fs env \<Rightarrow> (string \<Rightarrow> string) \<Rightarrow> jsval \<Rightarrow> exn + string" where
  "styleArg env wrap v =
     (case v of
        JStr s \<Rightarrow> Inr (wrap s)
      | _ \<Rightarrow> (case chalkText env v of Inl e \<Rightarrow> Inl e | Inr s \<Rightarrow> Inr (wrap s)))"

text \<open>
  The prefix and the message are strings; the label is whatever the caller passed, and
  styling it can throw.
\<close>

definition styledLine :: "'fs env \<Rightarrow> style \<Rightarrow> logEntry \<Rightarrow> exn + string" where
  "styledLine env style parameters =
     (case styleArg env (bold style) (labelOf parameters) of
        Inl e \<Rightarrow> Inl e
      | Inr label \<Rightarrow>
          Inr (utilFormat env ''[%s] [%s] %s''
                 [JStr (boldInverse style (prefixOf parameters)),
                  JStr label,
                  JStr (plain style (messageOf parameters))]))"

definition printCliLogMessage ::
  "'fs env \<Rightarrow> jsval list \<Rightarrow> 'fs world \<Rightarrow> (exn + unit) \<times> 'fs world" where
  "printCliLogMessage env arguments w =
     (if length arguments = 0 then (Inr (), w)
      else
        (case parseLogEntry env arguments of
           Inl e \<Rightarrow> (Inl e, w)
         | Inr parameters \<Rightarrow>
             (case styledLine env (chalkCyan env) parameters of
                Inl e \<Rightarrow> (Inl e, w)
              | Inr line \<Rightarrow>
                  (Inr (),
                   writeEntry env
                     (utilFormat env ''[%s] [%s] %s''
                        [JStr (prefixOf parameters), labelOf parameters,
                         JStr (messageOf parameters)])
                     (consoleLog [JStr line] w)))))"

definition printCliErrorMessage ::
  "'fs env \<Rightarrow> jsval list \<Rightarrow> 'fs world \<Rightarrow> (exn + unit) \<times> 'fs world" where
  "printCliErrorMessage env arguments w =
     (if length arguments = 0 then (Inr (), w)
      else
        (case parseLogEntry env arguments of
           Inl e \<Rightarrow> (Inl e, w)
         | Inr parameters \<Rightarrow>
             (case styledLine env (chalkRed env) parameters of
                Inl e \<Rightarrow> (Inl e, w)
              | Inr line \<Rightarrow>
                  (Inr (),
                   writeEntry env
                     (utilFormat env ''[%s] [ERROR] [%s] %s''
                        [JStr (prefixOf parameters), labelOf parameters,
                         JStr (messageOf parameters)])
                     (consoleLog [JStr line] w)))))"

text \<open>The arguments of the \<^verbatim>\<open>console.log\<close> call of \<^verbatim>\<open>printDevtoolsMessage\<close>.\<close>

definition devtoolsArgs :: "logEntry \<Rightarrow> jsval list" where
  "devtoolsArgs parameters =
     [JStr ''%c%s%c %c%s%c %c%s'',
      JStr ''background-color: rgba(74, 179, 103, 1.0); color: rgba(255, 255, 255, 1.0); padding: 0 2px; font-weight: bold'',
      JStr (prefixOf parameters),
      JStr [],
      JStr ''background-color: rgba(74, 179, 103, 0.2); color: rgba(74, 179, 103, 1.0); padding: 0 2px'',
      labelOf parameters,
      JStr [],
      JStr ''font-weight: bold'',
      JStr (messageOf parameters)]"

definition printDevtoolsMessage ::
  "'fs env \<Rightarrow> jsval list \<Rightarrow> 'fs world \<Rightarrow> (exn + unit) \<times> 'fs world" where
  "printDevtoolsMessage env arguments w =
     (if length arguments = 0 then (Inr (), w)
      else if \<not> truthy (isDebug env) then (Inr (), w)
      else
        (case parseLogEntry env arguments of
           Inl e \<Rightarrow> (Inl e, w)
         | Inr parameters \<Rightarrow>
             (Inr (),
              writeEntry env
                (utilFormat env ''[%s] [%s] %s''
                   [JStr (prefixOf parameters), labelOf parameters, JStr (messageOf parameters)])
                (consoleLog (devtoolsArgs parameters) w))))"

definition printCliDebugMessage ::
  "'fs env \<Rightarrow> jsval list \<Rightarrow> 'fs world \<Rightarrow> (exn + unit) \<times> 'fs world" where
  "printCliDebugMessage env arguments w =
     (if length arguments = 0 then (Inr (), w)
      else if \<not> truthy (isDebug env) then (Inr (), w)
      else if processType env = JStr ''renderer'' then printDevtoolsMessage env arguments w
      else
        (case parseLogEntry env arguments of
           Inl e \<Rightarrow> (Inl e, w)
         | Inr parameters \<Rightarrow>
             (case styledLine env (chalkYellow env) parameters of
                Inl e \<Rightarrow> (Inl e, w)
              | Inr line \<Rightarrow>
                  (Inr (),
                   writeEntry env
                     (utilFormat env ''[DEBUG] [%s] [%s] %s''
                        [JStr (prefixOf parameters), labelOf parameters,
                         JStr (messageOf parameters)])
                     (consoleLog [JStr line] w)))))"

definition printCliInfoMessage ::
  "'fs env \<Rightarrow> jsval list \<Rightarrow> 'fs world \<Rightarrow> (exn + unit) \<times> 'fs world" where
  "printCliInfoMessage env arguments w =
     (if length arguments = 0 then (Inr (), w)
      else
        (case parseLogEntry env arguments of
           Inl e \<Rightarrow> (Inl e, w)
         | Inr parameters \<Rightarrow>
             (case styledLine env (chalkGreen env) parameters of
                Inl e \<Rightarrow> (Inl e, w)
              | Inr line \<Rightarrow>
                  (Inr (),
                   writeEntry env
                     (utilFormat env ''[DEBUG] [%s] [%s] %s''
                        [JStr (prefixOf parameters), labelOf parameters,
                         JStr (messageOf parameters)])
                     (consoleLog [JStr line] w)))))"

text \<open>
  \<^verbatim>\<open>printCliWarnMessage\<close> uses \<^verbatim>\<open>styleWarn = chalk['orange']\<close>; reading
  \<^verbatim>\<open>style.bold\<close> throws a \<^verbatim>\<open>TypeError\<close> when that is
  \<^verbatim>\<open>undefined\<close>, after the entry has been parsed and before anything is styled or
  printed.
\<close>

definition printCliWarnMessage ::
  "'fs env \<Rightarrow> jsval list \<Rightarrow> 'fs world \<Rightarrow> (exn + unit) \<times> 'fs world" where
  "printCliWarnMessage env arguments w =
     (if length arguments = 0 then (Inr (), w)
      else
        (case parseLogEntry env arguments of
           Inl e \<Rightarrow> (Inl e, w)
         | Inr parameters \<Rightarrow>
             (case chalkOrange env of
                None \<Rightarrow> (Inl (TypeError ''Cannot read property bold of undefined''), w)
              | Some style \<Rightarrow>
                  (case styledLine env style parameters of
                     Inl e \<Rightarrow> (Inl e, w)
                   | Inr line \<Rightarrow>
                       (Inr (),
                        writeEntry env
                          (utilFormat env ''[DEBUG] [%s] [%s] %s''
                             [JStr (prefixOf parameters), labelOf parameters,
                              JStr (messageOf parameters)])
                          (consoleLog [JStr line] w))))))"

section \<open>The factory\<close>

text \<open>
  The six functions of the object the factory returns, under their property names.
\<close>

datatype logger = Log | Error | Debug | Devtools | Info | Warn

fun call ::
  "'fs env \<Rightarrow> logger \<Rightarrow> jsval list \<Rightarrow> 'fs world \<Rightarrow> (exn + unit) \<times> 'fs world" where
  "call env Log = printCliLogMessage env"
| "call env Error = printCliErrorMessage env"
| "call env Debug = printCliDebugMessage env"
| "call env Devtools = printDevtoolsMessage env"
| "call env Info = printCliInfoMessage env"
| "call env Warn = printCliWarnMessage env"

definition facade :: "(string \<times> logger) list" where
  "facade =
     [(''log'', Log), (''error'', Error), (''debug'', Debug),
      (''devtools'', Devtools), (''info'', Info), (''warn'', Warn)]"

text \<open>
  Reading a property: of an object, its value or \<^verbatim>\<open>undefined\<close>; of
  \<^verbatim>\<open>undefined\<close> or \<^verbatim>\<open>null\<close>, a \<^verbatim>\<open>TypeError\<close>; of any other value,
  \<^verbatim>\<open>undefined\<close>.
\<close>

fun getProp :: "jsval \<Rightarrow> string \<Rightarrow> exn + jsval" where
  "getProp (JObject ps) k = Inr (case map_of ps k of None \<Rightarrow> JUndefined | Some v \<Rightarrow> v)"
| "getProp JUndefined k = Inl (TypeError ''Cannot read property of undefined'')"
| "getProp JNull k = Inl (TypeError ''Cannot read property of null'')"
| "getProp v k = Inr JUndefined"

text \<open>
  \<^verbatim>\<open>module.exports = (options) => { ... }\<close>: the assignment
  \<^verbatim>\<open>writeToFile = options && options.writeToFile\<close>, then
  \<^verbatim>\<open>fs.mkdirpSync(appLogDirectory)\<close> when the flag is truthy, then the object of
  the six functions.
\<close>

definition create ::
  "'fs env \<Rightarrow> jsval \<Rightarrow> 'fs world \<Rightarrow> (exn + (string \<times> logger) list) \<times> 'fs world" where
  "create env options w =
     (case (if truthy options then getProp options ''writeToFile'' else Inr options) of
        Inl e \<Rightarrow> (Inl e, w)
      | Inr v \<Rightarrow>
          (if truthy v
           then
             (case mkdirpSync env (fs w) (appLogDirectory env) of
                (Some err, fs') \<Rightarrow> (Inl (Thrown err), w\<lparr>writeToFile := v, fs := fs'\<rparr>)
              | (None, fs') \<Rightarrow> (Inr facade, w\<lparr>writeToFile := v, fs := fs'\<rparr>))
           else (Inr facade, w\<lparr>writeToFile := v\<rparr>)))"

section \<open>A client of the module\<close>

text \<open>
  What happens around the logging calls: the client calls one of the six functions,
  time passes, or the event loop completes a pending file-system operation.
\<close>

datatype event = Call logger "jsval list" | Tick date | Complete nat

fun run :: "'fs env \<Rightarrow> event list \<Rightarrow> 'fs world \<Rightarrow> 'fs world" where
  "run env [] w = w"
| "run env (Call s args # es) w = run env es (snd (call env s args w))"
| "run env (Tick t # es) w = run env es (w\<lparr>clock := t\<rparr>)"
| "run env (Complete i # es) w = run env es (runPending env i w)"

section \<open>The formats the specification states\<close>

text \<open>
  The timestamp as the specification words it: \<^verbatim>\<open>DD MM YYYY HH:MM:SS\<close>, in
  day-month-year-time order with the punctuation of the date stripped.
\<close>

definition specTimestamp :: "date \<Rightarrow> string" where
  "specTimestamp d =
     pad 2 (day d) @ '' '' @ pad 2 (month d) @ '' '' @ yearString (year d) @ '' '' @ timePart d"

text \<open>
  The line as the specification words it:
  \<^verbatim>\<open>[timestamp] [OPTIONAL-SEVERITY-TAG] [PREFIX] [LABEL] MESSAGE\<close>, the tag being
  \<^verbatim>\<open>[ERROR]\<close> for error, \<^verbatim>\<open>[DEBUG]\<close> for debug, info and warn, and absent
  otherwise.
\<close>

definition specTag :: "logger \<Rightarrow> string" where
  "specTag s =
     (case s of
        Error \<Rightarrow> ''[ERROR] ''
      | Debug \<Rightarrow> ''[DEBUG] ''
      | Info \<Rightarrow> ''[DEBUG] ''
      | Warn \<Rightarrow> ''[DEBUG] ''
      | Log \<Rightarrow> []
      | Devtools \<Rightarrow> [])"

definition specLine :: "'fs env \<Rightarrow> string \<Rightarrow> logger \<Rightarrow> logEntry \<Rightarrow> string" where
  "specLine env timestamp s parameters =
     ''['' @ timestamp @ ''] '' @ specTag s @ ''['' @ prefixOf parameters @ ''] [''
       @ formatArg env (labelOf parameters) @ ''] '' @ messageOf parameters"

text \<open>
  The replacement as the specification words it: every argument that is a non-null
  structured value, that is, not a primitive, becomes a line break followed by its dump.
  The values that are not primitives are the objects and the functions.
\<close>

definition specDumped :: "'fs env \<Rightarrow> jsval \<Rightarrow> jsval" where
  "specDumped env v =
     (case v of
        JObject ps \<Rightarrow>
          JStr (CRLF @ inspect env v
                  \<lparr>colors = False, depth = None, showProxy = True, showHidden = True\<rparr>)
      | JFunction src \<Rightarrow>
          JStr (CRLF @ inspect env v
                  \<lparr>colors = False, depth = None, showProxy = True, showHidden = True\<rparr>)
      | _ \<Rightarrow> v)"

section \<open>Closed forms for the entry formatter\<close>

text \<open>
  What one pass of the loop does to an argument: a value whose \<^verbatim>\<open>typeof\<close> is
  \<^verbatim>\<open>'object'\<close> and that is not \<^verbatim>\<open>null\<close> becomes a line break followed by
  what \<^verbatim>\<open>util.inspect\<close> returns for it under the options the code passes (no
  depth limit, no colours, proxies and hidden fields shown); any other value, a function
  included, is left as it is.
\<close>

definition dumpStructured :: "'fs env \<Rightarrow> jsval \<Rightarrow> jsval" where
  "dumpStructured env v =
     (case v of
        JObject ps \<Rightarrow>
          JStr (CRLF @ inspect env v
                  \<lparr>colors = False, depth = None, showProxy = True, showHidden = True\<rparr>)
      | _ \<Rightarrow> v)"

text \<open>
  The text \<^verbatim>\<open>join\<close> gives an argument after that replacement: nothing for
  \<^verbatim>\<open>undefined\<close> and \<^verbatim>\<open>null\<close>, the dump for a structured value, and its
  string conversion otherwise. A symbol has no string conversion.
\<close>

definition isSymbol :: "jsval \<Rightarrow> bool" where
  "isSymbol v = (case v of JSymbol d \<Rightarrow> True | _ \<Rightarrow> False)"

definition joinedText :: "'fs env \<Rightarrow> jsval \<Rightarrow> string" where
  "joinedText env v =
     (case v of
        JUndefined \<Rightarrow> []
      | JNull \<Rightarrow> []
      | JBool b \<Rightarrow> (if b then ''true'' else ''false'')
      | JNum n \<Rightarrow> numberToString env n
      | JStr s \<Rightarrow> s
      | JSymbol d \<Rightarrow> []
      | JFunction src \<Rightarrow> src
      | JObject ps \<Rightarrow>
          CRLF @ inspect env v
                   \<lparr>colors = False, depth = None, showProxy = True, showHidden = True\<rparr>)"

section \<open>An example environment\<close>

text \<open>
  A small instance of the environment, for evaluating the functions on concrete
  inputs: POSIX paths, ASCII upper-casing, \<^verbatim>\<open>chalk\<close> with colour support off
  (a style wraps its text in nothing) and without \<^verbatim>\<open>orange\<close>, and a file
  system of directories and files that can be made read-only.
\<close>

record exampleFs =
  dirsWritable :: bool
  filesWritable :: bool
  directories :: "string list"
  files :: "(string \<times> string) list"

definition eacces :: jsval where
  "eacces = JObject [(''code'', JStr ''EACCES'')]"

definition exampleMkdirp :: "exampleFs \<Rightarrow> string \<Rightarrow> jsval \<times> exampleFs" where
  "exampleMkdirp f dir =
     (if dirsWritable f then (JNull, f\<lparr>directories := List.insert dir (directories f)\<rparr>)
      else (eacces, f))"

definition exampleAppendFile :: "exampleFs \<Rightarrow> string \<Rightarrow> string \<Rightarrow> jsval \<times> exampleFs" where
  "exampleAppendFile f file data =
     (if filesWritable f
      then (JNull,
            f\<lparr>files :=
                (case map_of (files f) file of
                   None \<Rightarrow> files f @ [(file, data)]
                 | Some old \<Rightarrow>
                     map (\<lambda>(k, v). if k = file then (k, v @ data) else (k, v)) (files f))\<rparr>)
      else (eacces, f))"

definition exampleMkdirpSync :: "exampleFs \<Rightarrow> string \<Rightarrow> jsval option \<times> exampleFs" where
  "exampleMkdirpSync f dir =
     (if dirsWritable f then (None, f\<lparr>directories := List.insert dir (directories f)\<rparr>)
      else (Some eacces, f))"

definition exampleText :: "jsval \<Rightarrow> string" where
  "exampleText v =
     (case v of
        JStr s \<Rightarrow> s
      | JUndefined \<Rightarrow> ''undefined''
      | JNull \<Rightarrow> ''null''
      | JBool b \<Rightarrow> (if b then ''true'' else ''false'')
      | JNum n \<Rightarrow> ''NaN''
      | JSymbol d \<Rightarrow> ''Symbol('' @ d @ '')''
      | JFunction src \<Rightarrow> src
      | JObject ps \<Rightarrow> ''[object Object]'')"

text \<open>
  The example \<^verbatim>\<open>chalk\<close> converts its argument the way string concatenation
  does, which throws on a symbol.
\<close>

definition exampleChalkText :: "jsval \<Rightarrow> exn + string" where
  "exampleChalkText v =
     (case v of
        JSymbol d \<Rightarrow> Inl (TypeError ''Cannot convert a Symbol value to a string'')
      | _ \<Rightarrow> Inr (exampleText v))"

definition exampleStyle :: style where
  "exampleStyle = \<lparr>plain = (\<lambda>s. s), bold = (\<lambda>s. s), boldInverse = (\<lambda>s. s)\<rparr>"

text \<open>
  The example inspector prints an object on one line, as Node does for a small object,
  and honours the depth option: a nested object beyond the depth is printed as
  \<^verbatim>\<open>[Object]\<close>. The first argument is the number of levels still to be printed,
  \<open>None\<close> for no limit.
\<close>

fun exampleInspectValue :: "nat option \<Rightarrow> jsval \<Rightarrow> string"
  and exampleInspectProps :: "nat option \<Rightarrow> (string \<times> jsval) list \<Rightarrow> string list" where
  "exampleInspectValue r JUndefined = ''undefined''"
| "exampleInspectValue r JNull = ''null''"
| "exampleInspectValue r (JBool b) = (if b then ''true'' else ''false'')"
| "exampleInspectValue r (JNum n) = ''NaN''"
| "exampleInspectValue r (JStr s) = [CHR 0x27] @ s @ [CHR 0x27]"
| "exampleInspectValue r (JSymbol d) = ''Symbol('' @ d @ '')''"
| "exampleInspectValue r (JFunction src) = ''[Function]''"
| "exampleInspectValue r (JObject ps) =
     (if ps = [] then ''{}''
      else if r = Some 0 then ''[Object]''
      else ''{ '' @ joinStrings '', '' (exampleInspectProps (map_option (\<lambda>n. n - 1) r) ps)
             @ '' }'')"
| "exampleInspectProps r [] = []"
| "exampleInspectProps r ((k, v) # ps) =
     (k @ '': '' @ exampleInspectValue r v) # exampleInspectProps r ps"

definition exampleInspect :: "jsval \<Rightarrow> inspectOptions \<Rightarrow> string" where
  "exampleInspect v opts = exampleInspectValue (map_option Suc (depth opts)) v"

definition exampleUpper :: "string \<Rightarrow> string" where
  "exampleUpper s =
     map (\<lambda>c. if 97 \<le> (of_char c :: nat) \<and> (of_char c :: nat) \<le> 122
               then char_of ((of_char c :: nat) - 32) else c) s"

definition exampleBasename :: "string \<Rightarrow> string" where
  "exampleBasename p = rev (takeWhile (\<lambda>c. c \<noteq> CHR ''/'') (rev p))"

definition exampleDirname :: "string \<Rightarrow> string" where
  "exampleDirname p = rev (drop 1 (dropWhile (\<lambda>c. c \<noteq> CHR ''/'') (rev p)))"

definition exampleEnv :: "exampleFs env" where
  "exampleEnv =
     \<lparr>appName = ''player'',
      appLogDirectory = ''/home/user/.cache/player/log'',
      isDebug = JBool True,
      parentFilename = Some ''/app/main.js'',
      processType = JUndefined,
      chalkCyan = exampleStyle,
      chalkRed = exampleStyle,
      chalkYellow = exampleStyle,
      chalkGreen = exampleStyle,
      chalkOrange = None,
      chalkText = exampleChalkText,
      numberToString = (\<lambda>n. ''NaN''),
      objectToString = (\<lambda>v. Inr ''[object Object]''),
      inspect = exampleInspect,
      formatS = exampleText,
      pathJoin = (\<lambda>a b. a @ ''/'' @ b),
      pathDirname = exampleDirname,
      pathBasename = exampleBasename,
      toUpper = exampleUpper,
      mkdirp = exampleMkdirp,
      appendFile = exampleAppendFile,
      mkdirpSync = exampleMkdirpSync\<rparr>"

definition exampleWorld :: "exampleFs world" where
  "exampleWorld =
     \<lparr>writeToFile = JBool True,
      clock = \<lparr>year = 2016, month = 5, day = 4, hours = 10, minutes = 20, seconds = 30,
               milliseconds = 123\<rparr>,
      console = [],
      pending = [],
      fs = \<lparr>dirsWritable = True, filesWritable = True, directories = [], files = []\<rparr>\<rparr>"

section \<open>The timestamp\<close>

text \<open>The characters of the date and time fields of an ISO-8601 instant.\<close>

definition fieldChar :: "char \<Rightarrow> bool" where
  "fieldChar c = (c \<in> set ''0123456789+-:'')"

lemma fieldChar_facts:
  "fieldChar c \<Longrightarrow>
     c \<notin> set ''ZzTt'' \<and> c \<noteq> CHR ''.'' \<and> c \<noteq> CHR '' '' \<and> \<not> whiteSpace c \<and> \<not> lineTerminator c"
  by (auto simp: fieldChar_def whiteSpace_def lineTerminator_def)

lemma fieldChar_punct: "fieldChar (CHR ''-'')" "fieldChar (CHR ''+'')" "fieldChar (CHR '':'')"
  by (simp_all add: fieldChar_def)

lemma digit_fieldChar: "fieldChar (digit n)"
proof -
  have "n mod 10 < length ''0123456789''" by simp
  then have "''0123456789'' ! (n mod 10) \<in> set ''0123456789''" by (rule nth_mem)
  then show ?thesis by (auto simp: digit_def fieldChar_def)
qed

lemma pad_fieldChar: "\<forall>c\<in>set (pad k n). fieldChar c"
  by (induction k arbitrary: n) (auto simp: digit_fieldChar)

lemma length_pad: "length (pad k n) = k"
  by (induction k arbitrary: n) auto

lemma yearString_fieldChar: "\<forall>c\<in>set (yearString y). fieldChar c"
  by (simp add: yearString_def pad_fieldChar fieldChar_punct ball_Un)

lemma yearString_nonempty: "yearString y \<noteq> []"
  using length_pad [of 4 "nat y"] by (auto simp: yearString_def)

lemma datePart_fieldChar: "\<forall>c\<in>set (datePart d). fieldChar c"
  by (simp add: datePart_def pad_fieldChar yearString_fieldChar fieldChar_punct ball_Un)

lemma timePart_fieldChar: "\<forall>c\<in>set (timePart d). fieldChar c"
  by (simp add: timePart_def pad_fieldChar fieldChar_punct ball_Un)

lemma datePart_nonempty: "datePart d \<noteq> []"
  by (simp add: datePart_def yearString_nonempty)

lemma timePart_nonempty: "timePart d \<noteq> []"
  by (simp add: timePart_def)

text \<open>The replacement keeps a run of field characters.\<close>

lemma replaceZT_kept:
  "\<forall>c\<in>set xs. fieldChar c \<Longrightarrow> replaceZT (xs @ ys) = xs @ replaceZT ys"
  by (induction xs) (use fieldChar_facts in auto)

text \<open>The fraction and the final \<^verbatim>\<open>Z\<close> are one match of \<^verbatim>\<open>\..+\<close>.\<close>

lemma replaceZT_fraction:
  assumes "\<forall>c\<in>set xs. \<not> lineTerminator c"
  shows "replaceZT (CHR ''.'' # xs @ ''Z'') = '' ''"
proof -
  have a: "\<forall>c\<in>set (xs @ ''Z''). \<not> lineTerminator c"
    using assms by (auto simp: lineTerminator_def)
  have t: "takeWhile (\<lambda>x. \<not> lineTerminator x) (xs @ ''Z'') = xs @ ''Z''"
    using a by (simp only: takeWhile_eq_all_conv)
  have dr: "dropWhile (\<lambda>x. \<not> lineTerminator x) (xs @ ''Z'') = []"
    using a by (simp only: dropWhile_eq_Nil_conv)
  show ?thesis
    by (simp only: replaceZT.simps t dr) simp
qed

lemma replaceZT_toISOString:
  "replaceZT (toISOString d) = datePart d @ '' '' @ timePart d @ '' ''"
proof -
  have f: "\<forall>c\<in>set (pad 3 (milliseconds d)). \<not> lineTerminator c"
    using pad_fieldChar fieldChar_facts by blast
  have "replaceZT (toISOString d)
      = datePart d @ replaceZT (CHR ''T'' # timePart d @ CHR ''.'' # pad 3 (milliseconds d) @ ''Z'')"
    unfolding toISOString_def using replaceZT_kept [OF datePart_fieldChar] by simp
  also have "replaceZT (CHR ''T'' # timePart d @ CHR ''.'' # pad 3 (milliseconds d) @ ''Z'')
      = CHR '' '' # replaceZT (timePart d @ CHR ''.'' # pad 3 (milliseconds d) @ ''Z'')"
    by simp
  also have "replaceZT (timePart d @ CHR ''.'' # pad 3 (milliseconds d) @ ''Z'')
      = timePart d @ replaceZT (CHR ''.'' # pad 3 (milliseconds d) @ ''Z'')"
    using replaceZT_kept [OF timePart_fieldChar] by simp
  also have "replaceZT (CHR ''.'' # pad 3 (milliseconds d) @ ''Z'') = '' ''"
    by (rule replaceZT_fraction [OF f])
  finally show ?thesis by simp
qed

lemma trim_fields:
  assumes "xs \<noteq> []" "\<not> whiteSpace (hd xs)" "ys \<noteq> []" "\<not> whiteSpace (last ys)"
  shows "trim (xs @ '' '' @ ys @ '' '') = xs @ '' '' @ ys"
proof -
  obtain x xs' where xs: "xs = x # xs'" using assms(1) by (cases xs) auto
  obtain ys' y where ys: "ys = ys' @ [y]" using assms(3) by (cases ys rule: rev_cases) auto
  show ?thesis using assms(2,4) unfolding xs ys trim_def
    by (simp add: whiteSpace_def)
qed

lemma splitSpace_no_space:
  "\<forall>c\<in>set xs. c \<noteq> CHR '' '' \<Longrightarrow> splitSpace xs = [xs]"
  by (induction xs) auto

lemma splitSpace_field:
  "\<forall>c\<in>set xs. c \<noteq> CHR '' '' \<Longrightarrow> splitSpace (xs @ CHR '' '' # ys) = xs # splitSpace ys"
  by (induction xs) auto

lemma dateString_fields: "dateString d = timePart d @ '' '' @ datePart d"
proof -
  have hd: "\<not> whiteSpace (hd (datePart d))"
    using datePart_fieldChar datePart_nonempty fieldChar_facts hd_in_set by blast
  have la: "\<not> whiteSpace (last (timePart d))"
    using timePart_fieldChar timePart_nonempty fieldChar_facts last_in_set by blast
  have tr: "trim (replaceZT (toISOString d)) = datePart d @ '' '' @ timePart d"
    unfolding replaceZT_toISOString
    by (rule trim_fields [OF datePart_nonempty hd timePart_nonempty la])
  have nd: "\<forall>c\<in>set (datePart d). c \<noteq> CHR '' ''"
    using datePart_fieldChar fieldChar_facts by blast
  have nt: "\<forall>c\<in>set (timePart d). c \<noteq> CHR '' ''"
    using timePart_fieldChar fieldChar_facts by blast
  have "splitSpace (datePart d @ '' '' @ timePart d) = [datePart d, timePart d]"
    using splitSpace_field [OF nd, of "timePart d"] splitSpace_no_space [OF nt] by simp
  then show ?thesis
    unfolding dateString_def tr by simp
qed

text \<open>
  C2, as the specification states it, fails: at 2016-05-04T10:20:30.123Z the code
  computes \<^verbatim>\<open>10:20:30 2016-05-04\<close>, not \<^verbatim>\<open>04 05 2016 10:20:30\<close>.
\<close>

theorem timestamp_not_day_month_year:
  "dateString \<lparr>year = 2016, month = 5, day = 4, hours = 10, minutes = 20, seconds = 30,
               milliseconds = 123\<rparr> = ''10:20:30 2016-05-04''
   \<and> specTimestamp \<lparr>year = 2016, month = 5, day = 4, hours = 10, minutes = 20, seconds = 30,
                    milliseconds = 123\<rparr> = ''04 05 2016 10:20:30''
   \<and> dateString \<lparr>year = 2016, month = 5, day = 4, hours = 10, minutes = 20, seconds = 30,
                 milliseconds = 123\<rparr>
     \<noteq> specTimestamp \<lparr>year = 2016, month = 5, day = 4, hours = 10, minutes = 20, seconds = 30,
                      milliseconds = 123\<rparr>"
  by code_simp

text \<open>
  C2, amended: for every instant the timestamp of a file write is
  \<^verbatim>\<open>HH:MM:SS YYYY-MM-DD\<close>: the time of day first, then the ISO-8601 date with
  its hyphens kept. The \<^verbatim>\<open>T\<close> and the fraction with the \<^verbatim>\<open>Z\<close> are replaced
  by spaces, the result is trimmed, and the two fields are swapped.
\<close>

theorem timestamp_time_then_date:
  "dateString d =
     pad 2 (hours d) @ '':'' @ pad 2 (minutes d) @ '':'' @ pad 2 (seconds d) @ '' ''
       @ yearString (year d) @ ''-'' @ pad 2 (month d) @ ''-'' @ pad 2 (day d)"
  using dateString_fields [of d] by (simp add: timePart_def datePart_def)

theorem timestamp_time_then_date_witness:
  "dateString \<lparr>year = 1999, month = 12, day = 31, hours = 23, minutes = 59, seconds = 7,
               milliseconds = 0\<rparr> = ''23:59:07 1999-12-31''"
proof -
  have r: "pad 2 (hours \<lparr>year = 1999, month = 12, day = 31, hours = 23, minutes = 59,
                         seconds = 7, milliseconds = 0\<rparr>) @ '':''
           @ pad 2 (minutes \<lparr>year = 1999, month = 12, day = 31, hours = 23, minutes = 59,
                              seconds = 7, milliseconds = 0\<rparr>) @ '':''
           @ pad 2 (seconds \<lparr>year = 1999, month = 12, day = 31, hours = 23, minutes = 59,
                              seconds = 7, milliseconds = 0\<rparr>) @ '' ''
           @ yearString (year \<lparr>year = 1999, month = 12, day = 31, hours = 23, minutes = 59,
                                seconds = 7, milliseconds = 0\<rparr>) @ ''-''
           @ pad 2 (month \<lparr>year = 1999, month = 12, day = 31, hours = 23, minutes = 59,
                            seconds = 7, milliseconds = 0\<rparr>) @ ''-''
           @ pad 2 (day \<lparr>year = 1999, month = 12, day = 31, hours = 23, minutes = 59,
                          seconds = 7, milliseconds = 0\<rparr>)
           = ''23:59:07 1999-12-31''"
    by code_simp
  show ?thesis
    using timestamp_time_then_date
      [of "\<lparr>year = 1999, month = 12, day = 31, hours = 23, minutes = 59, seconds = 7,
            milliseconds = 0\<rparr>"]
    by (simp only: r)
qed

section \<open>Format strings\<close>

lemma utilFormat_plain:
  "utilFormat env ''[%s] [%s] %s'' [a, b, c] =
     ''['' @ formatArg env a @ ''] ['' @ formatArg env b @ ''] '' @ formatArg env c"
  by simp

lemma utilFormat_error:
  "utilFormat env ''[%s] [ERROR] [%s] %s'' [a, b, c] =
     ''['' @ formatArg env a @ ''] [ERROR] ['' @ formatArg env b @ ''] '' @ formatArg env c"
  by simp

lemma utilFormat_debug:
  "utilFormat env ''[DEBUG] [%s] [%s] %s'' [a, b, c] =
     ''[DEBUG] ['' @ formatArg env a @ ''] ['' @ formatArg env b @ ''] '' @ formatArg env c"
  by simp

lemma formatArg_JStr: "formatArg env (JStr s) = s"
  by (simp add: formatArg_def)

section \<open>The loop of the entry formatter\<close>

lemma inspectLoop_from:
  "k \<le> length xs \<Longrightarrow>
   inspectLoop env [k..<length xs] (map (dumpStructured env) (take k xs) @ drop k xs)
     = map (dumpStructured env) xs"
proof (induction "length xs - k" arbitrary: k)
  case 0
  then show ?case by simp
next
  case (Suc n)
  then have k: "k < length xs" by simp
  have upt: "[k..<length xs] = k # [Suc k..<length xs]" using k by (simp add: upt_conv_Cons)
  let ?cur = "map (dumpStructured env) (take k xs) @ drop k xs"
  have nth: "?cur ! k = xs ! k" using k by (simp add: nth_append)
  have step: "(if ?cur ! k \<noteq> JNull \<and> typeof (?cur ! k) = ''object''
               then ?cur[k := JStr (CRLF @ inspect env (?cur ! k) inspectOpts)] else ?cur)
             = map (dumpStructured env) (take (Suc k) xs) @ drop (Suc k) xs"
  proof -
    have d: "drop k xs = xs ! k # drop (Suc k) xs" using k by (simp add: Cons_nth_drop_Suc)
    have t: "take (Suc k) xs = take k xs @ [xs ! k]" using k by (simp add: take_Suc_conv_app_nth)
    have upd: "?cur[k := y] = map (dumpStructured env) (take k xs) @ y # drop (Suc k) xs" for y
      using k by (simp add: d list_update_append)
    show ?thesis
      unfolding nth upd t
      by (cases "xs ! k") (simp_all add: d dumpStructured_def inspectOpts_def)
  qed
  from Suc(1) [of "Suc k"] Suc(2) k
  have "inspectLoop env [Suc k..<length xs]
          (map (dumpStructured env) (take (Suc k) xs) @ drop (Suc k) xs)
        = map (dumpStructured env) xs" by simp
  then show ?case unfolding upt inspectLoop.simps step .
qed

lemma inspectLoop_map: "inspectLoop env [0..<length xs] xs = map (dumpStructured env) xs"
  using inspectLoop_from [of 0 xs env] by simp

section \<open>What the formatter and the writer do not read\<close>

text \<open>Neither the debug flag nor the process type is read by the formatter.\<close>

lemma inspectLoop_isDebug:
  "inspectLoop (env\<lparr>isDebug := a\<rparr>) ks xs = inspectLoop env ks xs"
  by (induction ks arbitrary: xs) simp_all


lemma ToString_isDebug: "ToString (env\<lparr>isDebug := a\<rparr>) v = ToString env v"
  by (cases v) simp_all


lemma joinElements_isDebug: "joinElements (env\<lparr>isDebug := a\<rparr>) vs = joinElements env vs"
  by (induction vs) (simp_all add: joinElement_def ToString_isDebug cong: sum.case_cong)


lemma parseLogEntry_isDebug: "parseLogEntry (env\<lparr>isDebug := a\<rparr>) args = parseLogEntry env args"
  by (simp add: parseLogEntry_def arrayJoin_def inspectLoop_isDebug joinElements_isDebug Let_def
      cong: option.case_cong)


lemma formatArg_isDebug: "formatArg (env\<lparr>isDebug := a\<rparr>) v = formatArg env v"
  by (cases v) (simp_all add: formatArg_def)


lemma writeEntry_isDebug: "writeEntry (env\<lparr>isDebug := a\<rparr>) entry w = writeEntry env entry w"
  by (simp add: writeEntry_def appLogFile_def)


lemma styleArg_isDebug: "styleArg (env\<lparr>isDebug := a\<rparr>) f v = styleArg env f v"
  by (cases v) (simp_all add: styleArg_def)

lemma styledLine_eq:
  "styledLine env st p =
     (case styleArg env (bold st) (labelOf p) of
        Inl e \<Rightarrow> Inl e
      | Inr l \<Rightarrow>
          Inr (''['' @ boldInverse st (prefixOf p) @ ''] ['' @ l @ ''] '' @ plain st (messageOf p)))"
  unfolding styledLine_def utilFormat_plain formatArg_JStr ..

lemma styledLine_isDebug: "styledLine (env\<lparr>isDebug := a\<rparr>) st p = styledLine env st p"
  unfolding styledLine_eq styleArg_isDebug ..

text \<open>A label that is a string is styled without a conversion.\<close>

lemma styledLine_JStr:
  "labelOf p = JStr l \<Longrightarrow>
   styledLine env st p =
     Inr (''['' @ boldInverse st (prefixOf p) @ ''] ['' @ bold st l @ ''] ''
            @ plain st (messageOf p))"
  by (simp add: styledLine_eq styleArg_def)

section \<open>The six functions, with the format strings expanded\<close>

lemma log_eq:
  "printCliLogMessage env args w =
     (if args = [] then (Inr (), w)
      else case parseLogEntry env args of
             Inl e \<Rightarrow> (Inl e, w)
           | Inr p \<Rightarrow>
               (case styledLine env (chalkCyan env) p of
                  Inl e \<Rightarrow> (Inl e, w)
                | Inr line \<Rightarrow>
                    (Inr (),
                     writeEntry env
                       (''['' @ prefixOf p @ ''] ['' @ formatArg env (labelOf p) @ ''] ''
                          @ messageOf p)
                       (consoleLog [JStr line] w))))"
  unfolding printCliLogMessage_def utilFormat_plain formatArg_JStr by simp

lemma error_eq:
  "printCliErrorMessage env args w =
     (if args = [] then (Inr (), w)
      else case parseLogEntry env args of
             Inl e \<Rightarrow> (Inl e, w)
           | Inr p \<Rightarrow>
               (case styledLine env (chalkRed env) p of
                  Inl e \<Rightarrow> (Inl e, w)
                | Inr line \<Rightarrow>
                    (Inr (),
                     writeEntry env
                       (''['' @ prefixOf p @ ''] [ERROR] ['' @ formatArg env (labelOf p) @ ''] ''
                          @ messageOf p)
                       (consoleLog [JStr line] w))))"
  unfolding printCliErrorMessage_def utilFormat_error formatArg_JStr by simp

lemma devtools_eq:
  "printDevtoolsMessage env args w =
     (if args = [] \<or> \<not> truthy (isDebug env) then (Inr (), w)
      else case parseLogEntry env args of
             Inl e \<Rightarrow> (Inl e, w)
           | Inr p \<Rightarrow>
               (Inr (),
                writeEntry env
                  (''['' @ prefixOf p @ ''] ['' @ formatArg env (labelOf p) @ ''] '' @ messageOf p)
                  (consoleLog (devtoolsArgs p) w)))"
  unfolding printDevtoolsMessage_def utilFormat_plain formatArg_JStr by simp

lemma debug_eq:
  "printCliDebugMessage env args w =
     (if args = [] \<or> \<not> truthy (isDebug env) then (Inr (), w)
      else if processType env = JStr ''renderer'' then printDevtoolsMessage env args w
      else case parseLogEntry env args of
             Inl e \<Rightarrow> (Inl e, w)
           | Inr p \<Rightarrow>
               (case styledLine env (chalkYellow env) p of
                  Inl e \<Rightarrow> (Inl e, w)
                | Inr line \<Rightarrow>
                    (Inr (),
                     writeEntry env
                       (''[DEBUG] ['' @ prefixOf p @ ''] ['' @ formatArg env (labelOf p) @ ''] ''
                          @ messageOf p)
                       (consoleLog [JStr line] w))))"
  unfolding printCliDebugMessage_def utilFormat_debug formatArg_JStr by simp

lemma info_eq:
  "printCliInfoMessage env args w =
     (if args = [] then (Inr (), w)
      else case parseLogEntry env args of
             Inl e \<Rightarrow> (Inl e, w)
           | Inr p \<Rightarrow>
               (case styledLine env (chalkGreen env) p of
                  Inl e \<Rightarrow> (Inl e, w)
                | Inr line \<Rightarrow>
                    (Inr (),
                     writeEntry env
                       (''[DEBUG] ['' @ prefixOf p @ ''] ['' @ formatArg env (labelOf p) @ ''] ''
                          @ messageOf p)
                       (consoleLog [JStr line] w))))"
  unfolding printCliInfoMessage_def utilFormat_debug formatArg_JStr by simp

lemma warn_eq:
  "printCliWarnMessage env args w =
     (if args = [] then (Inr (), w)
      else case parseLogEntry env args of
             Inl e \<Rightarrow> (Inl e, w)
           | Inr p \<Rightarrow>
               (case chalkOrange env of
                  None \<Rightarrow> (Inl (TypeError ''Cannot read property bold of undefined''), w)
                | Some st \<Rightarrow>
                    (case styledLine env st p of
                       Inl e \<Rightarrow> (Inl e, w)
                     | Inr line \<Rightarrow>
                         (Inr (),
                          writeEntry env
                            (''[DEBUG] ['' @ prefixOf p @ ''] ['' @ formatArg env (labelOf p)
                               @ ''] '' @ messageOf p)
                            (consoleLog [JStr line] w)))))"
  unfolding printCliWarnMessage_def utilFormat_debug formatArg_JStr by simp

lemma info_isDebug:
  "printCliInfoMessage (env\<lparr>isDebug := a\<rparr>) args w = printCliInfoMessage env args w"
  unfolding info_eq parseLogEntry_isDebug writeEntry_isDebug formatArg_isDebug styledLine_isDebug
  by (simp cong: sum.case_cong)

lemma warn_isDebug:
  "printCliWarnMessage (env\<lparr>isDebug := a\<rparr>) args w = printCliWarnMessage env args w"
  unfolding warn_eq parseLogEntry_isDebug writeEntry_isDebug formatArg_isDebug styledLine_isDebug
  by (simp cong: sum.case_cong option.case_cong)


section \<open>The writer\<close>

lemma writeEntry_off: "\<not> truthy (writeToFile w) \<Longrightarrow> writeEntry env entry w = w"
  by (simp add: writeEntry_def)

lemma writeEntry_on:
  "truthy (writeToFile w) \<Longrightarrow>
   writeEntry env entry w =
     w\<lparr>pending := pending w @
          [MkdirpTask (pathDirname env (appLogFile env)) (appLogFile env)
             (''['' @ dateString (clock w) @ ''] '' @ entry @ CRLF)]\<rparr>"
  by (simp add: writeEntry_def)

lemma writeEntry_frame:
  "fs (writeEntry env entry w) = fs w"
  "writeToFile (writeEntry env entry w) = writeToFile w"
  "console (writeEntry env entry w) = console w"
  "clock (writeEntry env entry w) = clock w"
  by (simp_all add: writeEntry_def)

lemma consoleLog_frame:
  "fs (consoleLog args w) = fs w"
  "writeToFile (consoleLog args w) = writeToFile w"
  "pending (consoleLog args w) = pending w"
  "clock (consoleLog args w) = clock w"
  "console (consoleLog args w) = console w @ [Stdout args]"
  by (simp_all add: consoleLog_def)

lemmas call_eqs = log_eq error_eq devtools_eq debug_eq info_eq warn_eq

lemma call_frame:
  "fs (snd (call env s args w)) = fs w \<and> writeToFile (snd (call env s args w)) = writeToFile w"
  by (cases s)
     (simp_all add: call_eqs writeEntry_frame consoleLog_frame split: sum.splits option.splits)

lemma call_pending_off:
  "\<not> truthy (writeToFile w) \<Longrightarrow> pending (snd (call env s args w)) = pending w"
  by (cases s)
     (simp_all add: call_eqs writeEntry_off consoleLog_frame split: sum.splits option.splits)

section \<open>The debug gate\<close>

text \<open>
  C1, as the specification states it, fails: with the debug flag inactive a call of
  \<^verbatim>\<open>info\<close> prints its line and starts the file write.
\<close>

theorem info_prints_with_debug_off:
  "\<not> truthy (isDebug (exampleEnv\<lparr>isDebug := JBool False\<rparr>))
   \<and> console (snd (printCliInfoMessage (exampleEnv\<lparr>isDebug := JBool False\<rparr>)
                      [JStr ''X'', JStr ''a''] exampleWorld))
       = [Stdout [JStr ''[MAIN.JS] [X] a'']]
   \<and> pending (snd (printCliInfoMessage (exampleEnv\<lparr>isDebug := JBool False\<rparr>)
                      [JStr ''X'', JStr ''a''] exampleWorld))
       = [MkdirpTask ''/home/user/.cache/player/log'' ''/home/user/.cache/player/log/player.log''
            (''[10:20:30 2016-05-04] [DEBUG] [MAIN.JS] [X] a'' @ CRLF)]"
  by code_simp

text \<open>
  C1, amended: for every call of \<^verbatim>\<open>debug\<close> with at least one argument, if the
  debug flag is inactive the call prints nothing and writes nothing; \<^verbatim>\<open>info\<close>
  and \<^verbatim>\<open>warn\<close> do not read the flag, they do the same whether it is active or
  not.
\<close>

theorem debug_gated_info_warn_not:
  assumes "arguments \<noteq> []" and "\<not> truthy (isDebug env)"
  shows "printCliDebugMessage env arguments w = (Inr (), w)
       \<and> printCliInfoMessage env arguments w
           = printCliInfoMessage (env\<lparr>isDebug := JBool True\<rparr>) arguments w
       \<and> printCliWarnMessage env arguments w
           = printCliWarnMessage (env\<lparr>isDebug := JBool True\<rparr>) arguments w"
  using assms by (simp add: debug_eq info_isDebug warn_isDebug)

theorem debug_gated_info_warn_not_witness:
  "[JStr ''X'', JStr ''a''] \<noteq> [] \<and> \<not> truthy (isDebug (exampleEnv\<lparr>isDebug := JBool False\<rparr>))
   \<and> printCliDebugMessage (exampleEnv\<lparr>isDebug := JBool False\<rparr>) [JStr ''X'', JStr ''a'']
        exampleWorld = (Inr (), exampleWorld)"
proof -
  have a: "[JStr ''X'', JStr ''a''] \<noteq> []" by simp
  have d: "\<not> truthy (isDebug (exampleEnv\<lparr>isDebug := JBool False\<rparr>))" by simp
  show ?thesis
    using a d debug_gated_info_warn_not [OF a d, of exampleWorld] by simp
qed

section \<open>Calls without arguments\<close>

text \<open>
  C6: for each of the six functions and every configuration, a call with no argument
  returns normally and leaves the console, the pending file operations and the file
  system as they were.
\<close>

theorem no_arguments_no_effect: "call env s [] w = (Inr (), w)"
  by (cases s) (simp_all add: call_eqs)

theorem no_arguments_no_effect_witness:
  "call exampleEnv Warn [] exampleWorld = (Inr (), exampleWorld)
   \<and> call (exampleEnv\<lparr>isDebug := JBool False\<rparr>) Devtools [] exampleWorld = (Inr (), exampleWorld)"
  using no_arguments_no_effect [of exampleEnv Warn exampleWorld]
    no_arguments_no_effect [of "exampleEnv\<lparr>isDebug := JBool False\<rparr>" Devtools exampleWorld]
  by (rule conjI)

section \<open>The writer switched off\<close>

lemma runPending_none: "pending w = [] \<Longrightarrow> runPending env i w = w"
  by (simp add: runPending_def)

lemma run_off:
  "\<not> truthy (writeToFile w) \<Longrightarrow> pending w = [] \<Longrightarrow>
   pending (run env es w) = [] \<and> fs (run env es w) = fs w
     \<and> writeToFile (run env es w) = writeToFile w"
proof (induction es arbitrary: w)
  case Nil
  then show ?case by simp
next
  case (Cons e es)
  show ?case
  proof (cases e)
    case (Call s args)
    let ?w = "snd (call env s args w)"
    have "\<not> truthy (writeToFile ?w)" "pending ?w = []"
      using Cons.prems call_frame [of env s args w] call_pending_off [of w env s args] by simp_all
    from Cons.IH [OF this] show ?thesis
      using Call call_frame [of env s args w] by simp
  next
    case (Tick t)
    have "\<not> truthy (writeToFile (w\<lparr>clock := t\<rparr>))" "pending (w\<lparr>clock := t\<rparr>) = []"
      using Cons.prems by simp_all
    from Cons.IH [OF this] show ?thesis using Tick by simp
  next
    case (Complete i)
    from Cons.IH [OF Cons.prems] show ?thesis
      using Complete runPending_none [OF Cons.prems(2)] by simp
  qed
qed

text \<open>
  C7: when \<^verbatim>\<open>writeToFile\<close> is false (or any falsy value) the file writer returns
  at once, leaving everything as it was; and whatever a client then does, however many
  calls of whatever function, no file-system operation is ever started and the file
  system is never touched.
\<close>

theorem write_off_no_effect:
  assumes "\<not> truthy (writeToFile w)"
  shows "writeEntry env entry w = w
       \<and> (pending w = [] \<longrightarrow> pending (run env es w) = [] \<and> fs (run env es w) = fs w)"
  using assms run_off [of w env es] by (simp add: writeEntry_off)

theorem write_off_no_effect_witness:
  "\<not> truthy (writeToFile (exampleWorld\<lparr>writeToFile := JBool False\<rparr>))
   \<and> writeEntry exampleEnv ''[MAIN.JS] [X] a'' (exampleWorld\<lparr>writeToFile := JBool False\<rparr>)
       = exampleWorld\<lparr>writeToFile := JBool False\<rparr>
   \<and> pending (exampleWorld\<lparr>writeToFile := JBool False\<rparr>) = []
   \<and> pending (run exampleEnv [Call Log [JStr ''X'', JStr ''a''], Complete 0, Call Error [JStr ''Y'']]
                (exampleWorld\<lparr>writeToFile := JBool False\<rparr>)) = []
   \<and> fs (run exampleEnv [Call Log [JStr ''X'', JStr ''a''], Complete 0, Call Error [JStr ''Y'']]
           (exampleWorld\<lparr>writeToFile := JBool False\<rparr>))
       = fs (exampleWorld\<lparr>writeToFile := JBool False\<rparr>)"
proof -
  have f: "\<not> truthy (writeToFile (exampleWorld\<lparr>writeToFile := JBool False\<rparr>))" by simp
  have p: "pending (exampleWorld\<lparr>writeToFile := JBool False\<rparr>) = []"
    by (simp add: exampleWorld_def)
  show ?thesis
    using f p
      write_off_no_effect [OF f, of exampleEnv "''[MAIN.JS] [X] a''"
        "[Call Log [JStr ''X'', JStr ''a''], Complete 0, Call Error [JStr ''Y'']]"]
    by simp
qed

section \<open>The factory\<close>

text \<open>
  C9: called with an options object whose \<^verbatim>\<open>writeToFile\<close> is true (or any truthy
  value), the factory sets the flag and runs \<^verbatim>\<open>fs.mkdirpSync\<close> on the log
  directory before it returns. If that throws, the error reaches the caller and no
  logging functions are returned; otherwise the six functions are returned on the file
  system \<^verbatim>\<open>fs.mkdirpSync\<close> left. Nothing is left pending.
\<close>

theorem create_makes_directory:
  assumes "map_of ps ''writeToFile'' = Some v" and "truthy v"
  shows "create env (JObject ps) w =
           (case mkdirpSync env (fs w) (appLogDirectory env) of
              (Some err, fs') \<Rightarrow> (Inl (Thrown err), w\<lparr>writeToFile := v, fs := fs'\<rparr>)
            | (None, fs') \<Rightarrow> (Inr facade, w\<lparr>writeToFile := v, fs := fs'\<rparr>))
       \<and> pending (snd (create env (JObject ps) w)) = pending w
       \<and> map fst facade = [''log'', ''error'', ''debug'', ''devtools'', ''info'', ''warn'']
       \<and> map (\<lambda>(name, f). call env f) facade =
           [printCliLogMessage env, printCliErrorMessage env, printCliDebugMessage env,
            printDevtoolsMessage env, printCliInfoMessage env, printCliWarnMessage env]"
  using assms by (simp add: create_def facade_def split: prod.splits option.splits)

theorem create_makes_directory_witness:
  "map_of [(''writeToFile'', JBool True)] ''writeToFile'' = Some (JBool True) \<and> truthy (JBool True)
   \<and> create exampleEnv (JObject [(''writeToFile'', JBool True)]) exampleWorld
       = (Inr facade,
          exampleWorld\<lparr>fs := \<lparr>dirsWritable = True, filesWritable = True,
                              directories = [''/home/user/.cache/player/log''], files = []\<rparr>\<rparr>)
   \<and> create exampleEnv (JObject [(''writeToFile'', JBool True)])
        (exampleWorld\<lparr>fs := \<lparr>dirsWritable = False, filesWritable = True,
                              directories = [], files = []\<rparr>\<rparr>)
       = (Inl (Thrown eacces),
          exampleWorld\<lparr>fs := \<lparr>dirsWritable = False, filesWritable = True,
                              directories = [], files = []\<rparr>\<rparr>)"
proof -
  have m: "map_of [(''writeToFile'', JBool True)] ''writeToFile'' = Some (JBool True)" by simp
  have t: "truthy (JBool True)" by simp
  show ?thesis
    using m t
      create_makes_directory [OF m t, of exampleEnv exampleWorld]
      create_makes_directory [OF m t, of exampleEnv
        "exampleWorld\<lparr>fs := \<lparr>dirsWritable = False, filesWritable = True,
                              directories = [], files = []\<rparr>\<rparr>"]
    by (simp add: exampleEnv_def exampleWorld_def exampleMkdirpSync_def)
qed

section \<open>The message of an entry\<close>

lemma joinElements_dumped:
  "joinElements env (map (dumpStructured env) vs) =
     (if list_ex isSymbol vs then Inl (TypeError ''Cannot convert a Symbol value to a string'')
      else Inr (map (joinedText env) vs))"
proof (induction vs)
  case Nil
  then show ?case by simp
next
  case (Cons v vs)
  then show ?case
    by (cases v) (simp_all add: joinElement_def dumpStructured_def isSymbol_def joinedText_def)
qed

lemma parseLogEntry_closed:
  assumes "parentFilename env = Some filename"
  shows "parseLogEntry env (label # rest) =
           (if list_ex isSymbol rest
            then Inl (TypeError ''Cannot convert a Symbol value to a string'')
            else Inr \<lparr>prefixOf = toUpper env (pathBasename env filename),
                      labelOf = label,
                      messageOf = joinStrings '' '' (map (joinedText env) rest)\<rparr>)"
  using assms
  by (simp add: parseLogEntry_def arrayJoin_def inspectLoop_map joinElements_dumped)

text \<open>
  C8, as the specification states it, fails. A function is a non-null value that is not
  a primitive, yet the loop leaves it as it is (its \<^verbatim>\<open>typeof\<close> is
  \<^verbatim>\<open>'function'\<close>) and the message holds its source text, with no line break and no
  dump. And not every list of arguments has a message: on a symbol the join throws.
\<close>

theorem function_argument_not_dumped:
  "inspectLoop exampleEnv [0..<length [JFunction ''function () {}'']]
       [JFunction ''function () {}'']
     = [JFunction ''function () {}'']
   \<and> map (specDumped exampleEnv) [JFunction ''function () {}'']
       = [JStr (CRLF @ ''[Function]'')]
   \<and> parseLogEntry exampleEnv [JStr ''X'', JFunction ''function () {}'']
       = Inr \<lparr>prefixOf = ''MAIN.JS'', labelOf = JStr ''X'', messageOf = ''function () {}''\<rparr>
   \<and> parseLogEntry exampleEnv [JStr ''X'', JSymbol ''s'']
       = Inl (TypeError ''Cannot convert a Symbol value to a string'')"
  by code_simp

text \<open>
  C8, amended: for every list of arguments to the entry formatter (loaded by a parent
  module), each remaining argument after the label whose \<^verbatim>\<open>typeof\<close> is
  \<^verbatim>\<open>'object'\<close> and that is not \<^verbatim>\<open>null\<close> is replaced by a line break followed
  by what \<^verbatim>\<open>util.inspect\<close> returns for it when called with no depth limit, without
  colours and with hidden fields shown; a function is not replaced. When no remaining
  argument is a symbol the message is the remaining arguments joined with single spaces
  (\<^verbatim>\<open>undefined\<close> and \<^verbatim>\<open>null\<close> giving the empty string), and the empty string
  when there is no remaining argument; when one is a symbol the formatter throws a
  \<^verbatim>\<open>TypeError\<close>.
\<close>

theorem parseLogEntry_message:
  assumes "parentFilename env = Some filename"
  shows "inspectLoop env [0..<length rest] rest = map (dumpStructured env) rest
       \<and> dumpStructured env (JObject ps) =
           JStr (CRLF @ inspect env (JObject ps)
                   \<lparr>colors = False, depth = None, showProxy = True, showHidden = True\<rparr>)
       \<and> dumpStructured env (JFunction src) = JFunction src
       \<and> parseLogEntry env (label # rest) =
           (if list_ex isSymbol rest
            then Inl (TypeError ''Cannot convert a Symbol value to a string'')
            else Inr \<lparr>prefixOf = toUpper env (pathBasename env filename),
                      labelOf = label,
                      messageOf = joinStrings '' '' (map (joinedText env) rest)\<rparr>)
       \<and> parseLogEntry env [label] =
           Inr \<lparr>prefixOf = toUpper env (pathBasename env filename), labelOf = label,
                messageOf = []\<rparr>"
  using parseLogEntry_closed [OF assms, of label rest] parseLogEntry_closed [OF assms, of label "[]"]
  by (simp add: inspectLoop_map dumpStructured_def)

text \<open>
  In the example an object nested four levels deep is printed in full, where the
  default depth of the inspector would cut it.
\<close>

lemma example_depth_matters:
  "exampleInspect (JObject [(''k'', JNull)])
     \<lparr>colors = False, depth = None, showProxy = True, showHidden = True\<rparr>
     = ''{ k: null }''
   \<and> exampleInspect (JObject [(''k'', JObject [(''j'', JObject [(''i'', JObject [(''h'', JNull)])])])])
     \<lparr>colors = False, depth = None, showProxy = True, showHidden = True\<rparr>
     = ''{ k: { j: { i: { h: null } } } }''
   \<and> exampleInspect (JObject [(''k'', JObject [(''j'', JObject [(''i'', JObject [(''h'', JNull)])])])])
       \<lparr>colors = False, depth = Some 2, showProxy = True, showHidden = True\<rparr>
     = ''{ k: { j: { i: [Object] } } }''"
  by code_simp

theorem parseLogEntry_message_witness:
  "parentFilename exampleEnv = Some ''/app/main.js''
   \<and> parseLogEntry exampleEnv
        [JStr ''X'', JStr ''a'',
         JObject [(''k'', JObject [(''j'', JObject [(''i'', JObject [(''h'', JNull)])])])],
         JNull, JBool True, JFunction ''function () {}'']
       = Inr \<lparr>prefixOf = ''MAIN.JS'', labelOf = JStr ''X'',
              messageOf = ''a '' @ CRLF @ ''{ k: { j: { i: { h: null } } } }  true function () {}''\<rparr>
   \<and> parseLogEntry exampleEnv [JStr ''X''] =
       Inr \<lparr>prefixOf = ''MAIN.JS'', labelOf = JStr ''X'', messageOf = []\<rparr>"
proof -
  have p: "parentFilename exampleEnv = Some ''/app/main.js''" by (simp add: exampleEnv_def)
  have u: "toUpper exampleEnv (pathBasename exampleEnv ''/app/main.js'') = ''MAIN.JS''"
    by code_simp
  have j: "joinStrings '' '' (map (joinedText exampleEnv)
             [JStr ''a'',
              JObject [(''k'', JObject [(''j'', JObject [(''i'', JObject [(''h'', JNull)])])])],
              JNull, JBool True, JFunction ''function () {}''])
           = ''a '' @ CRLF @ ''{ k: { j: { i: { h: null } } } }  true function () {}''"
    by code_simp
  have s: "\<not> list_ex isSymbol
             [JStr ''a'',
              JObject [(''k'', JObject [(''j'', JObject [(''i'', JObject [(''h'', JNull)])])])],
              JNull, JBool True, JFunction ''function () {}'']"
    by (simp add: isSymbol_def)
  show ?thesis
    using p parseLogEntry_message [OF p, of
        "[JStr ''a'',
          JObject [(''k'', JObject [(''j'', JObject [(''i'', JObject [(''h'', JNull)])])])],
          JNull, JBool True, JFunction ''function () {}'']" _ _ "JStr ''X''"]
    by (simp only: u j s if_False simp_thms)
qed

section \<open>The line written to the file\<close>

text \<open>
  C3, as the specification states it, fails: the line that \<^verbatim>\<open>log\<close> writes for the
  label \<^verbatim>\<open>X\<close> and the messages \<^verbatim>\<open>a\<close>, \<^verbatim>\<open>b\<close> does not contain
  \<^verbatim>\<open>X a b\<close>, because the label is put in brackets.
\<close>

theorem log_line_lacks_bare_label:
  "pending (snd (printCliLogMessage exampleEnv [JStr ''X'', JStr ''a'', JStr ''b''] exampleWorld))
     = [MkdirpTask ''/home/user/.cache/player/log'' ''/home/user/.cache/player/log/player.log''
          (''[10:20:30 2016-05-04] [MAIN.JS] [X] a b'' @ CRLF)]
   \<and> \<not> sublist ''X a b'' (''[10:20:30 2016-05-04] [MAIN.JS] [X] a b'' @ CRLF)"
  by code_simp

lemma parse_X_a_b:
  assumes "parentFilename env = Some filename"
  shows "parseLogEntry env [JStr ''X'', JStr ''a'', JStr ''b''] =
           Inr \<lparr>prefixOf = toUpper env (pathBasename env filename), labelOf = JStr ''X'',
                messageOf = ''a b''\<rparr>"
  using assms
  by (simp add: parseLogEntry_def arrayJoin_def joinElement_def)

text \<open>
  C3, amended: for a call of \<^verbatim>\<open>log\<close> with \<^verbatim>\<open>writeToFile\<close> true, the label
  \<^verbatim>\<open>X\<close> and the messages \<^verbatim>\<open>a\<close>, \<^verbatim>\<open>b\<close>, the line handed to the file
  contains \<^verbatim>\<open>[X] a b\<close>, begins with the timestamp in brackets and ends with CRLF.
\<close>

theorem log_line_X_a_b:
  assumes "parentFilename env = Some filename" and "truthy (writeToFile w)"
  shows "pending (snd (printCliLogMessage env [JStr ''X'', JStr ''a'', JStr ''b''] w)) =
           pending w @
             [MkdirpTask (pathDirname env (appLogFile env)) (appLogFile env)
                (''['' @ dateString (clock w) @ ''] ['' @ toUpper env (pathBasename env filename)
                   @ ''] [X] a b'' @ CRLF)]
       \<and> sublist ''[X] a b''
            (''['' @ dateString (clock w) @ ''] ['' @ toUpper env (pathBasename env filename)
               @ ''] [X] a b'' @ CRLF)
       \<and> prefix (''['' @ dateString (clock w) @ '']'')
            (''['' @ dateString (clock w) @ ''] ['' @ toUpper env (pathBasename env filename)
               @ ''] [X] a b'' @ CRLF)
       \<and> suffix CRLF
            (''['' @ dateString (clock w) @ ''] ['' @ toUpper env (pathBasename env filename)
               @ ''] [X] a b'' @ CRLF)"
proof -
  let ?P = "toUpper env (pathBasename env filename)"
  let ?line = "''['' @ dateString (clock w) @ ''] ['' @ ?P @ ''] [X] a b'' @ CRLF"
  have "truthy (writeToFile (consoleLog args w))" for args
    using assms(2) by (simp add: consoleLog_frame)
  then have 1: "pending (snd (printCliLogMessage env [JStr ''X'', JStr ''a'', JStr ''b''] w))
          = pending w @ [MkdirpTask (pathDirname env (appLogFile env)) (appLogFile env) ?line]"
    by (simp add: log_eq parse_X_a_b [OF assms(1)] styledLine_JStr writeEntry_on consoleLog_frame
        formatArg_JStr)
  have "?line = (''['' @ dateString (clock w) @ ''] ['' @ ?P @ ''] '') @ ''[X] a b'' @ CRLF"
    by simp
  then have 2: "sublist ''[X] a b'' ?line"
    unfolding sublist_def by blast
  have "?line = (''['' @ dateString (clock w) @ '']'') @ ('' ['' @ ?P @ ''] [X] a b'' @ CRLF)"
    by simp
  then have 3: "prefix (''['' @ dateString (clock w) @ '']'') ?line"
    unfolding prefix_def by blast
  have "?line = (''['' @ dateString (clock w) @ ''] ['' @ ?P @ ''] [X] a b'') @ CRLF"
    by simp
  then have 4: "suffix CRLF ?line"
    unfolding suffix_def by blast
  show ?thesis using 1 2 3 4 by blast
qed

theorem log_line_X_a_b_witness:
  "parentFilename exampleEnv = Some ''/app/main.js'' \<and> truthy (writeToFile exampleWorld)
   \<and> pending (snd (printCliLogMessage exampleEnv [JStr ''X'', JStr ''a'', JStr ''b''] exampleWorld))
       = [MkdirpTask ''/home/user/.cache/player/log'' ''/home/user/.cache/player/log/player.log''
            (''[10:20:30 2016-05-04] [MAIN.JS] [X] a b'' @ CRLF)]
   \<and> sublist ''[X] a b'' (''[10:20:30 2016-05-04] [MAIN.JS] [X] a b'' @ CRLF)"
proof -
  have p: "parentFilename exampleEnv = Some ''/app/main.js''" by (simp add: exampleEnv_def)
  have t: "truthy (writeToFile exampleWorld)" by (simp add: exampleWorld_def)
  have e: "pathDirname exampleEnv ''/home/user/.cache/player/log/player.log''
             = ''/home/user/.cache/player/log''"
    "appLogFile exampleEnv = ''/home/user/.cache/player/log/player.log''"
    "toUpper exampleEnv (pathBasename exampleEnv ''/app/main.js'') = ''MAIN.JS''"
    "dateString (clock exampleWorld) = ''10:20:30 2016-05-04''"
    "pending exampleWorld = []"
    by code_simp+
  show ?thesis
    using p t log_line_X_a_b [OF p t]
    by (simp only: e append_Nil append_Cons simp_thms)
qed

text \<open>
  In the example environment the two pending operations then complete and the line is
  the content of the log file.
\<close>

lemma example_log_reaches_file:
  "files (fs (runPending exampleEnv 0 (runPending exampleEnv 0
       (snd (printCliLogMessage exampleEnv [JStr ''X'', JStr ''a'', JStr ''b''] exampleWorld)))))
     = [(''/home/user/.cache/player/log/player.log'',
         ''[10:20:30 2016-05-04] [MAIN.JS] [X] a b'' @ CRLF)]"
  by code_simp

text \<open>
  C4, as the specification states it, fails: the line that \<^verbatim>\<open>error\<close> writes has
  its tag after the prefix, \<^verbatim>\<open>[MAIN.JS] [ERROR] [X] a\<close>, not before it; the line
  differs from the stated format under the stated timestamp and also under the
  timestamp the code computes.
\<close>

theorem error_line_tag_after_prefix:
  "pending (snd (call exampleEnv Error [JStr ''X'', JStr ''a''] exampleWorld))
     = [MkdirpTask ''/home/user/.cache/player/log'' ''/home/user/.cache/player/log/player.log''
          (''[10:20:30 2016-05-04] [MAIN.JS] [ERROR] [X] a'' @ CRLF)]
   \<and> specLine exampleEnv (specTimestamp (clock exampleWorld)) Error
         \<lparr>prefixOf = ''MAIN.JS'', labelOf = JStr ''X'', messageOf = ''a''\<rparr>
       = ''[04 05 2016 10:20:30] [ERROR] [MAIN.JS] [X] a''
   \<and> specLine exampleEnv (dateString (clock exampleWorld)) Error
         \<lparr>prefixOf = ''MAIN.JS'', labelOf = JStr ''X'', messageOf = ''a''\<rparr>
       = ''[10:20:30 2016-05-04] [ERROR] [MAIN.JS] [X] a''
   \<and> ''[10:20:30 2016-05-04] [MAIN.JS] [ERROR] [X] a'' @ CRLF
       \<noteq> specLine exampleEnv (specTimestamp (clock exampleWorld)) Error
           \<lparr>prefixOf = ''MAIN.JS'', labelOf = JStr ''X'', messageOf = ''a''\<rparr> @ CRLF
   \<and> ''[10:20:30 2016-05-04] [MAIN.JS] [ERROR] [X] a'' @ CRLF
       \<noteq> specLine exampleEnv (dateString (clock exampleWorld)) Error
           \<lparr>prefixOf = ''MAIN.JS'', labelOf = JStr ''X'', messageOf = ''a''\<rparr> @ CRLF"
  by code_simp

lemma pending_written:
  assumes "pending (writeEntry env entry (consoleLog cargs w)) \<noteq> pending w"
  shows "pending (writeEntry env entry (consoleLog cargs w)) =
           pending w @
             [MkdirpTask (pathDirname env (appLogFile env)) (appLogFile env)
                (''['' @ dateString (clock w) @ ''] '' @ entry @ CRLF)]"
  using assms by (cases "truthy (writeToFile w)") (simp_all add: writeEntry_def consoleLog_def)

text \<open>
  C4, amended: every line handed to the file is the bracketed timestamp
  \<^verbatim>\<open>[HH:MM:SS YYYY-MM-DD]\<close>, a space, a body and CRLF. The body is
  \<^verbatim>\<open>[PREFIX] [LABEL] MESSAGE\<close> for log and devtools, and for debug in a renderer
  process; \<^verbatim>\<open>[PREFIX] [ERROR] [LABEL] MESSAGE\<close> for error; and
  \<^verbatim>\<open>[DEBUG] [PREFIX] [LABEL] MESSAGE\<close> for debug elsewhere, info and warn. No
  style is applied to any part of the line.
\<close>

theorem file_line_format:
  assumes "pending (snd (call env s arguments w)) \<noteq> pending w"
  shows "\<exists>p. parseLogEntry env arguments = Inr p \<and>
           pending (snd (call env s arguments w)) =
             pending w @
               [MkdirpTask (pathDirname env (appLogFile env)) (appLogFile env)
                  (''['' @ dateString (clock w) @ ''] '' @
                   (case s of
                      Log \<Rightarrow>
                        ''['' @ prefixOf p @ ''] ['' @ formatArg env (labelOf p) @ ''] ''
                          @ messageOf p
                    | Error \<Rightarrow>
                        ''['' @ prefixOf p @ ''] [ERROR] ['' @ formatArg env (labelOf p) @ ''] ''
                          @ messageOf p
                    | Debug \<Rightarrow>
                        (if processType env = JStr ''renderer''
                         then ''['' @ prefixOf p @ ''] ['' @ formatArg env (labelOf p) @ ''] ''
                                @ messageOf p
                         else ''[DEBUG] ['' @ prefixOf p @ ''] ['' @ formatArg env (labelOf p)
                                @ ''] '' @ messageOf p)
                    | Devtools \<Rightarrow>
                        ''['' @ prefixOf p @ ''] ['' @ formatArg env (labelOf p) @ ''] ''
                          @ messageOf p
                    | Info \<Rightarrow>
                        ''[DEBUG] ['' @ prefixOf p @ ''] ['' @ formatArg env (labelOf p) @ ''] ''
                          @ messageOf p
                    | Warn \<Rightarrow>
                        ''[DEBUG] ['' @ prefixOf p @ ''] ['' @ formatArg env (labelOf p) @ ''] ''
                          @ messageOf p)
                   @ CRLF)]"
proof (cases "parseLogEntry env arguments")
  case (Inl e)
  with assms show ?thesis
    by (cases s) (simp_all add: call_eqs split: if_splits)
next
  case (Inr p)
  show ?thesis
  proof (cases s)
    case Log
    with assms Inr show ?thesis
      by (cases "styledLine env (chalkCyan env) p")
         (simp_all add: log_eq pending_written split: if_splits)
  next
    case Error
    with assms Inr show ?thesis
      by (cases "styledLine env (chalkRed env) p")
         (simp_all add: error_eq pending_written split: if_splits)
  next
    case Debug
    with assms Inr show ?thesis
      by (cases "styledLine env (chalkYellow env) p")
         (simp_all add: debug_eq devtools_eq pending_written split: if_splits)
  next
    case Devtools
    with assms Inr show ?thesis
      by (simp add: devtools_eq pending_written split: if_splits)
  next
    case Info
    with assms Inr show ?thesis
      by (cases "styledLine env (chalkGreen env) p")
         (simp_all add: info_eq pending_written split: if_splits)
  next
    case Warn
    with assms Inr show ?thesis
      by (cases "chalkOrange env")
         (simp_all add: warn_eq pending_written split: if_splits sum.splits)
  qed
qed

theorem file_line_format_witness:
  "pending (snd (call exampleEnv Error [JStr ''X'', JStr ''a''] exampleWorld))
     \<noteq> pending exampleWorld
   \<and> (\<exists>p. parseLogEntry exampleEnv [JStr ''X'', JStr ''a''] = Inr p \<and>
           pending (snd (call exampleEnv Error [JStr ''X'', JStr ''a''] exampleWorld)) =
             pending exampleWorld @
               [MkdirpTask (pathDirname exampleEnv (appLogFile exampleEnv)) (appLogFile exampleEnv)
                  (''['' @ dateString (clock exampleWorld) @ ''] '' @
                   (''['' @ prefixOf p @ ''] [ERROR] ['' @ formatArg exampleEnv (labelOf p)
                      @ ''] '' @ messageOf p)
                   @ CRLF)])"
proof -
  have h: "pending (snd (call exampleEnv Error [JStr ''X'', JStr ''a''] exampleWorld))
             \<noteq> pending exampleWorld"
    by code_simp
  from file_line_format [OF h] obtain p where
    "parseLogEntry exampleEnv [JStr ''X'', JStr ''a''] = Inr p"
    "pending (snd (call exampleEnv Error [JStr ''X'', JStr ''a''] exampleWorld)) =
       pending exampleWorld @
         [MkdirpTask (pathDirname exampleEnv (appLogFile exampleEnv)) (appLogFile exampleEnv)
            (''['' @ dateString (clock exampleWorld) @ ''] '' @
             (''['' @ prefixOf p @ ''] [ERROR] ['' @ formatArg exampleEnv (labelOf p)
                @ ''] '' @ messageOf p)
             @ CRLF)]"
    by (auto simp only: logger.case)
  with h show ?thesis by blast
qed

section \<open>Failures of the file system\<close>

lemma call_returns_when_written:
  "pending (snd (call env s arguments w)) \<noteq> pending w \<Longrightarrow> fst (call env s arguments w) = Inr ()"
  by (cases s) (auto simp: call_eqs split: if_splits sum.splits option.splits)

text \<open>
  C5: a logging call that starts a file write has returned normally, before the file
  system is touched. When the directory creation or the append later fails, its callback
  only calls \<^verbatim>\<open>console.error\<close>: the failed operation is gone from the pending
  ones, no other is started in its place, and nothing else changes.
\<close>

theorem write_failure_reported:
  "(pending (snd (call env s arguments w)) \<noteq> pending w \<longrightarrow>
      fst (call env s arguments w) = Inr () \<and> fs (snd (call env s arguments w)) = fs w)
   \<and> (i < length (pending w) \<and> pending w ! i = MkdirpTask dir file data
        \<and> truthy (fst (mkdirp env (fs w) dir)) \<longrightarrow>
      runPending env i w =
        w\<lparr>pending := take i (pending w) @ drop (Suc i) (pending w),
          fs := snd (mkdirp env (fs w) dir),
          console := console w @
            [Stderr [JStr ''log'', JStr ''fs.mkdirp'', fst (mkdirp env (fs w) dir)]]\<rparr>)
   \<and> (i < length (pending w) \<and> pending w ! i = AppendTask file data
        \<and> truthy (fst (appendFile env (fs w) file data)) \<longrightarrow>
      runPending env i w =
        w\<lparr>pending := take i (pending w) @ drop (Suc i) (pending w),
          fs := snd (appendFile env (fs w) file data),
          console := console w @
            [Stderr [JStr ''log'', JStr ''fs.appendFile'',
                     fst (appendFile env (fs w) file data)]]\<rparr>)"
  using call_returns_when_written [of env s arguments w] call_frame [of env s arguments w]
  by (simp add: runPending_def consoleError_def split: prod.splits)

text \<open>A world whose file system refuses every write, with one operation pending.\<close>

theorem write_failure_reported_witness:
  "pending (snd (call exampleEnv Log [JStr ''X'', JStr ''a''] exampleWorld)) \<noteq> pending exampleWorld
   \<and> fst (call exampleEnv Log [JStr ''X'', JStr ''a''] exampleWorld) = Inr ()
   \<and> (0::nat) < length [MkdirpTask ''/d'' ''/d/f.log'' ''line'']
   \<and> truthy (fst (mkdirp exampleEnv
                    \<lparr>dirsWritable = False, filesWritable = False, directories = [], files = []\<rparr>
                    ''/d''))
   \<and> runPending exampleEnv 0
        (exampleWorld\<lparr>pending := [MkdirpTask ''/d'' ''/d/f.log'' ''line''],
                      fs := \<lparr>dirsWritable = False, filesWritable = False,
                              directories = [], files = []\<rparr>\<rparr>)
       = exampleWorld\<lparr>pending := [],
                      fs := \<lparr>dirsWritable = False, filesWritable = False,
                              directories = [], files = []\<rparr>,
                      console := [Stderr [JStr ''log'', JStr ''fs.mkdirp'', eacces]]\<rparr>
   \<and> truthy (fst (appendFile exampleEnv
                    \<lparr>dirsWritable = False, filesWritable = False, directories = [], files = []\<rparr>
                    ''/d/f.log'' ''line''))
   \<and> runPending exampleEnv 0
        (exampleWorld\<lparr>pending := [AppendTask ''/d/f.log'' ''line''],
                      fs := \<lparr>dirsWritable = False, filesWritable = False,
                              directories = [], files = []\<rparr>\<rparr>)
       = exampleWorld\<lparr>pending := [],
                      fs := \<lparr>dirsWritable = False, filesWritable = False,
                              directories = [], files = []\<rparr>,
                      console := [Stderr [JStr ''log'', JStr ''fs.appendFile'', eacces]]\<rparr>"
proof -
  let ?ro = "\<lparr>dirsWritable = False, filesWritable = False, directories = [], files = []\<rparr>"
  have h: "pending (snd (call exampleEnv Log [JStr ''X'', JStr ''a''] exampleWorld))
             \<noteq> pending exampleWorld"
    by code_simp
  have m: "mkdirp exampleEnv ?ro ''/d'' = (eacces, ?ro)"
    by (simp add: exampleEnv_def exampleMkdirp_def)
  have a: "appendFile exampleEnv ?ro ''/d/f.log'' ''line'' = (eacces, ?ro)"
    by (simp add: exampleEnv_def exampleAppendFile_def)
  have t: "truthy eacces" by (simp add: eacces_def)
  have c: "console exampleWorld = []" by (simp add: exampleWorld_def)
  show ?thesis
    using h t
      write_failure_reported [of exampleEnv Log "[JStr ''X'', JStr ''a'']" exampleWorld]
      write_failure_reported [of exampleEnv Log "[]"
        "exampleWorld\<lparr>pending := [MkdirpTask ''/d'' ''/d/f.log'' ''line''], fs := ?ro\<rparr>"
        0 "''/d''" "''/d/f.log''" "''line''"]
      write_failure_reported [of exampleEnv Log "[]"
        "exampleWorld\<lparr>pending := [AppendTask ''/d/f.log'' ''line''], fs := ?ro\<rparr>"
        0 "''/d''" "''/d/f.log''" "''line''"]
    by (simp add: m a c)
qed

section \<open>The devtools function\<close>




text \<open>
  In the example \<^verbatim>\<open>log\<close> throws on a label that is a symbol, where
  \<^verbatim>\<open>devtools\<close>, which styles nothing, starts its write.
\<close>

lemma example_log_throws_devtools_writes:
  "printCliLogMessage exampleEnv [JSymbol ''s'', JStr ''a''] exampleWorld
     = (Inl (TypeError ''Cannot convert a Symbol value to a string''), exampleWorld)
   \<and> pending (snd (printDevtoolsMessage exampleEnv [JSymbol ''s'', JStr ''a''] exampleWorld))
       = [MkdirpTask ''/home/user/.cache/player/log'' ''/home/user/.cache/player/log/player.log''
            (''[10:20:30 2016-05-04] [MAIN.JS] [Symbol(s)] a'' @ CRLF)]"
  by code_simp



end
